theory Spec2Isabelle
  imports Complex_Main "HOL-Library.Option_ord" "HOL-Library.Multiset"
begin

section \<open>JavaScript values used by the service\<close>

text \<open>
  The service is TypeScript on Node. Its numbers are IEEE doubles; here a number is
  either \<open>NaN\<close> or \<open>Num x\<close> for a real \<open>x\<close>, which stands for the double nearest to
  \<open>x\<close>. A product is rounded to the nearest double, as the hardware does. Sums,
  differences and quotients are taken exactly: in the code modelled here they are of
  integers, or an integer divided by 10, where the exact result stands for the double the
  code gets. The two infinities are outside this model. Comparisons with \<open>NaN\<close> are
  false, as in JavaScript.

  Strings are lists of 8-bit characters, read as code units below 256.
\<close>

datatype jsnum = NaN | Num real

text \<open>
  The double nearest to a real: the real is scaled to a significand \<open>m\<close> of 53 bits and
  an exponent \<open>e\<close> (not below that of the subnormal numbers), the significand is rounded
  to the nearest integer, a tie going to the even one, and scaled back. A result beyond
  the largest double, which the hardware gives as infinity, is outside the model.
\<close>

definition round_half_even :: "real \<Rightarrow> int" where
  "round_half_even m =
    (let f = \<lfloor>m\<rfloor>; r = m - of_int f
     in if r < 1 / 2 then f else if 1 / 2 < r then f + 1 else if even f then f else f + 1)"

fun normalise :: "nat \<Rightarrow> real \<Rightarrow> int \<Rightarrow> real \<times> int" where
  "normalise k m e =
    (if k = 0 then (m, e)
     else if m < 2 ^ 52 \<and> - 1074 < e then normalise (k - 1) (m * 2) (e - 1)
     else if 2 ^ 53 \<le> m then normalise (k - 1) (m / 2) (e + 1)
     else (m, e))"

declare normalise.simps [simp del]

definition to_double :: "real \<Rightarrow> real" where
  "to_double x =
    (let (m, e) = normalise 2200 \<bar>x\<bar> 0;
         n = real_of_int (round_half_even m);
         v = (if e < 0 then n / 2 ^ nat (- e) else n * 2 ^ nat e)
     in if x < 0 then - v else v)"

fun js_lt :: "jsnum \<Rightarrow> jsnum \<Rightarrow> bool" where
  "js_lt (Num a) (Num b) = (a < b)"
| "js_lt _ _ = False"

fun js_le :: "jsnum \<Rightarrow> jsnum \<Rightarrow> bool" where
  "js_le (Num a) (Num b) = (a \<le> b)"
| "js_le _ _ = False"

fun js_ge :: "jsnum \<Rightarrow> jsnum \<Rightarrow> bool" where
  "js_ge (Num a) (Num b) = (a \<ge> b)"
| "js_ge _ _ = False"

fun js_sub :: "jsnum \<Rightarrow> jsnum \<Rightarrow> jsnum" where
  "js_sub (Num a) (Num b) = Num (a - b)"
| "js_sub _ _ = NaN"

fun js_mul :: "jsnum \<Rightarrow> jsnum \<Rightarrow> jsnum" where
  "js_mul (Num a) (Num b) = Num (to_double (to_double a * to_double b))"
| "js_mul _ _ = NaN"

text \<open>Division is only ever applied with the divisor 10 in the code modelled here.\<close>

fun js_div :: "jsnum \<Rightarrow> jsnum \<Rightarrow> jsnum" where
  "js_div (Num a) (Num b) = (if b = 0 then NaN else Num (a / b))"
| "js_div _ _ = NaN"

text \<open>\<^verbatim>\<open>Math.round\<close>: the nearest integer, a tie going up.\<close>

fun Math_round :: "jsnum \<Rightarrow> jsnum" where
  "Math_round (Num a) = Num (of_int \<lfloor>a + 1 / 2\<rfloor>)"
| "Math_round NaN = NaN"

subsection \<open>Characters and digits\<close>

text \<open>
  The white space of \<^verbatim>\<open>\s\<close> and of \<^verbatim>\<open>parseFloat\<close>'s trimming, among
  code units below 256: TAB, LF, VT, FF, CR, space and the no-break space.
\<close>

definition isWhiteSpace :: "char \<Rightarrow> bool" where
  "isWhiteSpace c = (c \<in> set [CHR 0x09, CHR 0x0A, CHR 0x0B, CHR 0x0C, CHR 0x0D, CHR 0x20, CHR 0xA0])"

definition isDigit :: "char \<Rightarrow> bool" where
  "isDigit c = (48 \<le> (of_char c :: nat) \<and> (of_char c :: nat) \<le> 57)"

definition digitValue :: "char \<Rightarrow> nat" where
  "digitValue c = of_char c - 48"

definition digitsValue :: "string \<Rightarrow> nat" where
  "digitsValue ds = foldl (\<lambda>acc c. 10 * acc + digitValue c) 0 ds"

definition digitChar :: "nat \<Rightarrow> char" where
  "digitChar d = ''0123456789'' ! (d mod 10)"

subsection \<open>parseFloat\<close>

text \<open>
  \<^verbatim>\<open>parseFloat\<close> skips leading white space and reads the longest prefix that is a
  decimal literal: an optional sign, digits, an optional fraction, an optional exponent.
  With no digit in the mantissa the result is \<open>NaN\<close>; it never throws. (The literal
  \<^verbatim>\<open>Infinity\<close> is not modelled.)
\<close>

definition splitSign :: "string \<Rightarrow> bool \<times> string" where
  "splitSign s = (case s of
      c # r \<Rightarrow> (if c = CHR ''-'' then (True, r) else if c = CHR ''+'' then (False, r) else (False, s))
    | [] \<Rightarrow> (False, s))"

definition exponentPart :: "string \<Rightarrow> int" where
  "exponentPart s = (case s of
      c # r \<Rightarrow>
        (if c = CHR ''e'' \<or> c = CHR ''E''
         then (let (neg, t) = splitSign r; ds = takeWhile isDigit t
               in if ds = [] then 0
                  else if neg then - int (digitsValue ds) else int (digitsValue ds))
         else 0)
    | [] \<Rightarrow> 0)"

definition parseFloat :: "string \<Rightarrow> jsnum" where
  "parseFloat s =
    (let (neg, u) = splitSign (dropWhile isWhiteSpace s);
         ip = takeWhile isDigit u;
         r1 = dropWhile isDigit u;
         (fp, r2) = (case r1 of
                       c # r \<Rightarrow> (if c = CHR ''.'' then (takeWhile isDigit r, dropWhile isDigit r)
                                 else ([], r1))
                     | [] \<Rightarrow> ([], r1))
     in if ip = [] \<and> fp = [] then NaN
        else (let m = real (digitsValue ip) + real (digitsValue fp) / 10 ^ length fp;
                  e = exponentPart r2;
                  v = (if e < 0 then m / 10 ^ nat (- e) else m * 10 ^ nat e)
              in Num (if neg then - v else v)))"

text \<open>\<^verbatim>\<open>parseFloat(undefined)\<close> reads the text "undefined" and gives \<open>NaN\<close>.\<close>

definition parseFloat_opt :: "string option \<Rightarrow> jsnum" where
  "parseFloat_opt v = (case v of None \<Rightarrow> parseFloat ''undefined'' | Some s \<Rightarrow> parseFloat s)"

subsection \<open>Number to string\<close>

text \<open>
  The text a template literal gives a number, in plain decimal notation: \<open>NaN\<close>, or an
  optional minus sign, the integer part, and the fraction when there is one (at most 17
  digits of it here). The exponent notation JavaScript uses from \<open>1e21\<close> on and below
  \<open>1e-6\<close> is outside this model.
\<close>

fun natToString :: "nat \<Rightarrow> string" where
  "natToString n = (if n < 10 then [digitChar n] else natToString (n div 10) @ [digitChar (n mod 10)])"

declare natToString.simps [simp del]

fun fracDigits :: "nat \<Rightarrow> real \<Rightarrow> string" where
  "fracDigits k r =
    (if k = 0 \<or> r = 0 then []
     else digitChar (nat \<lfloor>r * 10\<rfloor>) # fracDigits (k - 1) (r * 10 - of_int \<lfloor>r * 10\<rfloor>))"

declare fracDigits.simps [simp del]

definition numberToString :: "jsnum \<Rightarrow> string" where
  "numberToString v = (case v of
      NaN \<Rightarrow> ''NaN''
    | Num x \<Rightarrow>
        (let a = \<bar>x\<bar>; f = a - of_int \<lfloor>a\<rfloor>
         in (if x < 0 then ''-'' else '''') @ natToString (nat \<lfloor>a\<rfloor>)
            @ (if f = 0 then '''' else ''.'' @ fracDigits 17 f)))"

subsection \<open>String methods\<close>

text \<open>\<^verbatim>\<open>s.split(",")\<close>: the pieces between the commas; never an empty array.\<close>

fun split_comma :: "string \<Rightarrow> string list" where
  "split_comma [] = [[]]"
| "split_comma (c # cs) =
    (if c = CHR '','' then [] # split_comma cs
     else (case split_comma cs of p # ps \<Rightarrow> (c # p) # ps | [] \<Rightarrow> [[c]]))"

text \<open>Reading an array element by index gives \<^verbatim>\<open>undefined\<close> (here \<open>None\<close>) out of range.\<close>

definition at_index :: "'a list \<Rightarrow> nat \<Rightarrow> 'a option" where
  "at_index xs i = (if i < length xs then Some (xs ! i) else None)"

text \<open>\<^verbatim>\<open>s.replace(pat, rep)\<close> with a string pattern replaces its first occurrence only.\<close>

fun replace_first :: "string \<Rightarrow> string \<Rightarrow> string \<Rightarrow> string" where
  "replace_first pat rep [] = (if pat = [] then rep else [])"
| "replace_first pat rep (c # cs) =
    (if take (length pat) (c # cs) = pat then rep @ drop (length pat) (c # cs)
     else c # replace_first pat rep cs)"

text \<open>\<^verbatim>\<open>s.replace(/[:\s]/g, "_")\<close>: every colon and every white-space character becomes an underscore.\<close>

definition replace_colon_space :: "string \<Rightarrow> string" where
  "replace_colon_space s = map (\<lambda>c. if c = CHR '':'' \<or> isWhiteSpace c then CHR ''_'' else c) s"

subsection \<open>parseInt\<close>

text \<open>
  \<^verbatim>\<open>parseInt\<close> with no radix: leading white space and a sign are skipped, a
  \<^verbatim>\<open>0x\<close> prefix selects base 16, and the longest run of digits is read; with no
  digit the result is \<open>NaN\<close>.
\<close>

definition hexDigitValue :: "char \<Rightarrow> nat option" where
  "hexDigitValue c =
    (let n = (of_char c :: nat)
     in if 48 \<le> n \<and> n \<le> 57 then Some (n - 48)
        else if 97 \<le> n \<and> n \<le> 102 then Some (n - 87)
        else if 65 \<le> n \<and> n \<le> 70 then Some (n - 55)
        else None)"

definition hexValue :: "string \<Rightarrow> nat" where
  "hexValue hs = foldl (\<lambda>acc c. 16 * acc + (case hexDigitValue c of Some v \<Rightarrow> v | None \<Rightarrow> 0)) 0 hs"

definition parseInt_digits :: "bool \<Rightarrow> bool \<Rightarrow> string \<Rightarrow> jsnum" where
  "parseInt_digits neg hex u =
    (let ds = (if hex then takeWhile (\<lambda>c. hexDigitValue c \<noteq> None) u else takeWhile isDigit u);
         v = (if hex then hexValue ds else digitsValue ds)
     in if ds = [] then NaN else Num (if neg then - real v else real v))"

definition parseInt :: "string \<Rightarrow> jsnum" where
  "parseInt s =
    (let (neg, u) = splitSign (dropWhile isWhiteSpace s)
     in (case u of
           c0 # c1 # r \<Rightarrow>
             (if c0 = CHR ''0'' \<and> (c1 = CHR ''x'' \<or> c1 = CHR ''X'')
              then parseInt_digits neg True r
              else parseInt_digits neg False u)
         | _ \<Rightarrow> parseInt_digits neg False u))"

subsection \<open>Array.prototype.sort\<close>

text \<open>
  \<^verbatim>\<open>xs.sort(cmp)\<close> is a stable sort: an element moves behind another only when the
  comparator's result for the pair is positive (a \<open>NaN\<close> result counts as zero).
\<close>

fun js_insort :: "('a \<Rightarrow> 'a \<Rightarrow> jsnum) \<Rightarrow> 'a \<Rightarrow> 'a list \<Rightarrow> 'a list" where
  "js_insort cmp x [] = [x]"
| "js_insort cmp x (y # ys) =
    (if js_lt (Num 0) (cmp x y) then y # js_insort cmp x ys else x # y # ys)"

definition js_sort :: "('a \<Rightarrow> 'a \<Rightarrow> jsnum) \<Rightarrow> 'a list \<Rightarrow> 'a list" where
  "js_sort cmp xs = foldr (js_insort cmp) xs []"

section \<open>Data model\<close>

text \<open>One entry of a BMKG feed (interface \<^verbatim>\<open>BMKGEarthquake\<close>); every field is text.\<close>

record BMKGEarthquake =
  Tanggal :: string
  Jam :: string
  DateTime :: string
  Coordinates :: string
  Lintang :: string
  Bujur :: string
  Magnitude :: string
  Kedalaman :: string
  Wilayah :: string
  Potensi :: string
  Dirasakan :: "string option"
  Shakemap :: "string option"

text \<open>
  The stored record (interfaces \<^verbatim>\<open>SupabaseEarthquake\<close> and \<^verbatim>\<open>Earthquake\<close>, which
  have the same fields). The field \<^verbatim>\<open>id\<close> is \<open>id_field\<close> here.
\<close>

record earthquake =
  id_field :: string
  datetime :: string
  timestamp :: jsnum
  magnitude :: jsnum
  depth :: jsnum
  latitude :: jsnum
  longitude :: jsnum
  region :: string
  tsunami_potential :: "string option"
  felt_status :: "string option"
  shakemap_url :: "string option"
  created_at :: jsnum




section \<open>Ingestion: bmkgService\<close>

definition BMKG_BASE_URL :: string where
  "BMKG_BASE_URL = ''https://data.bmkg.go.id''"

text \<open>\<^verbatim>\<open>s || null\<close> for a string, and for an optional string.\<close>

definition or_null :: "string \<Rightarrow> string option" where
  "or_null s = (if s = [] then None else Some s)"

definition opt_or_null :: "string option \<Rightarrow> string option" where
  "opt_or_null v = (case v of None \<Rightarrow> None | Some s \<Rightarrow> or_null s)"

text \<open>
  The record \<^verbatim>\<open>parseAndInsertEarthquake\<close> builds from a feed entry, before it writes
  it. \<^verbatim>\<open>new Date(text).getTime()\<close> is the parameter \<open>parseDate\<close> and
  \<^verbatim>\<open>Date.now()\<close> the parameter \<open>now\<close>. For an entry of the declared type no step
  throws: a text that is no number parses to \<open>NaN\<close>, and a missing second coordinate is
  \<^verbatim>\<open>parseFloat(undefined)\<close>.
\<close>

definition earthquakeData :: "(string \<Rightarrow> jsnum) \<Rightarrow> jsnum \<Rightarrow> BMKGEarthquake \<Rightarrow> earthquake" where
  "earthquakeData parseDate now entry =
    (let coords = split_comma (Coordinates entry);
         lat = parseFloat_opt (at_index coords 0);
         lon = parseFloat_opt (at_index coords 1);
         mag = parseFloat (Magnitude entry);
         dep = parseFloat (replace_first '' km'' '''' (Kedalaman entry));
         ident = replace_colon_space
                   (DateTime entry @ ''_'' @ numberToString lat @ ''_'' @ numberToString lon)
     in \<lparr> id_field = ident,
          datetime = Tanggal entry @ '' '' @ Jam entry,
          timestamp = parseDate (DateTime entry),
          magnitude = mag,
          depth = dep,
          latitude = lat,
          longitude = lon,
          region = Wilayah entry,
          tsunami_potential = or_null (Potensi entry),
          felt_status = opt_or_null (Dirasakan entry),
          shakemap_url = (case opt_or_null (Shakemap entry) of
                            None \<Rightarrow> None
                          | Some p \<Rightarrow> Some (BMKG_BASE_URL @ ''/'' @ p)),
          created_at = now \<rparr>)"

section \<open>The store: database/supabase\<close>

text \<open>
  The hosted table is outside the repository. Its contents are a list of rows; an upsert
  with \<^verbatim>\<open>onConflict: "id"\<close> replaces the row that has the record's id, or adds the
  record.
\<close>

definition store_upsert :: "earthquake list \<Rightarrow> earthquake \<Rightarrow> earthquake list" where
  "store_upsert tbl r =
    (if id_field r \<in> set (map id_field tbl)
     then map (\<lambda>x. if id_field x = id_field r then r else x) tbl
     else tbl @ [r])"

definition store_get :: "earthquake list \<Rightarrow> string \<Rightarrow> earthquake option" where
  "store_get tbl k = find (\<lambda>x. id_field x = k) tbl"

text \<open>
  What the backend did with one request is an input of the model: how many of the
  request's rows it persisted (\<open>written\<close>, counted from the front), and what the client
  call reported: nothing, an \<^verbatim>\<open>error\<close> field with a message, or a thrown exception.
\<close>

datatype backend_failure = ErrorField string | Thrown

record reply =
  written :: nat
  failed :: "backend_failure option"

definition backend_upsert :: "earthquake list \<Rightarrow> earthquake list \<Rightarrow> reply \<Rightarrow> earthquake list" where
  "backend_upsert tbl rows rp = foldl store_upsert tbl (take (written rp) rows)"

text \<open>The module state: whether the client was created, and the table behind it.\<close>

record server =
  configured :: bool
  table :: "earthquake list"

definition isSupabaseAvailable :: "server \<Rightarrow> bool" where
  "isSupabaseAvailable s = configured s"

definition upsertEarthquake :: "server \<Rightarrow> reply \<Rightarrow> earthquake \<Rightarrow> server \<times> bool" where
  "upsertEarthquake s rp eq =
    (if \<not> configured s then (s, False)
     else (s\<lparr>table := backend_upsert (table s) [eq] rp\<rparr>,
           (case failed rp of
              Some (ErrorField msg) \<Rightarrow> False
            | Some Thrown \<Rightarrow> False
            | None \<Rightarrow> True)))"

definition upsertEarthquakes :: "server \<Rightarrow> reply \<Rightarrow> earthquake list \<Rightarrow> server \<times> nat" where
  "upsertEarthquakes s rp eqs =
    (if \<not> configured s \<or> length eqs = 0 then (s, 0)
     else (s\<lparr>table := backend_upsert (table s) eqs rp\<rparr>,
           (case failed rp of
              Some (ErrorField msg) \<Rightarrow> 0
            | Some Thrown \<Rightarrow> 0
            | None \<Rightarrow> length eqs)))"

text \<open>
  \<^verbatim>\<open>parseAndInsertEarthquake\<close>: build the record and upsert it. Nothing in its
  \<^verbatim>\<open>try\<close> block throws for an entry of the declared type, so its \<^verbatim>\<open>catch\<close> is
  never entered and the call always resolves.
\<close>

definition parseAndInsertEarthquake ::
  "(string \<Rightarrow> jsnum) \<Rightarrow> jsnum \<Rightarrow> server \<Rightarrow> reply \<Rightarrow> BMKGEarthquake \<Rightarrow> server" where
  "parseAndInsertEarthquake parseDate now s rp entry =
     fst (upsertEarthquake s rp (earthquakeData parseDate now entry))"

subsection \<open>The three feeds\<close>

text \<open>
  What one \<^verbatim>\<open>axios.get\<close> gave. \<open>FetchError\<close> stands for every exception of the
  \<^verbatim>\<open>try\<close> block before an entry is read: the request was rejected (network error,
  timeout, bad status), or the body was no document with an \<^verbatim>\<open>Infogempa\<close> object, so
  that reading \<^verbatim>\<open>.gempa\<close> threw. Otherwise \<^verbatim>\<open>Infogempa.gempa\<close> is missing, one
  entry, or an array of entries.
\<close>

datatype gempa_field = NoGempa | OneGempa BMKGEarthquake | GempaList "BMKGEarthquake list"

datatype fetched = FetchError string | Document gempa_field

text \<open>
  An \<^verbatim>\<open>async\<close> function gives a promise. The model keeps how it settles and the logical
  time at which it does; \<^verbatim>\<open>Promise.all\<close> is fulfilled when the last of its promises is,
  and rejected as soon as one of them is rejected.
\<close>

datatype settled = Fulfilled | Rejected string

record promise =
  settled_at :: nat
  outcome :: settled

definition earliest :: "promise \<Rightarrow> promise list \<Rightarrow> promise" where
  "earliest p ps = foldl (\<lambda>a b. if settled_at b < settled_at a then b else a) p ps"

definition promise_all :: "promise list \<Rightarrow> promise" where
  "promise_all ps =
    (case filter (\<lambda>p. outcome p \<noteq> Fulfilled) ps of
       [] \<Rightarrow> \<lparr> settled_at = foldr max (map settled_at ps) 0, outcome = Fulfilled \<rparr>
     | r # rs \<Rightarrow> earliest r rs)"

text \<open>
  One run of a feed function: the entries it hands to \<^verbatim>\<open>parseAndInsertEarthquake\<close>, in
  order, and the promise it returns. The whole body of each function is a \<^verbatim>\<open>try\<close>
  whose \<^verbatim>\<open>catch\<close> only logs, so the promise is fulfilled on both paths. The time \<open>t\<close>
  at which the run ends is an input.
\<close>

record branch =
  entries :: "BMKGEarthquake list"
  completion :: promise

definition fetchLatestEarthquake :: "fetched \<Rightarrow> nat \<Rightarrow> branch" where
  "fetchLatestEarthquake f t =
    (case f of
       FetchError msg \<Rightarrow> \<lparr> entries = [], completion = \<lparr> settled_at = t, outcome = Fulfilled \<rparr> \<rparr>
     | Document gempa \<Rightarrow>
         \<lparr> entries = (case gempa of OneGempa e \<Rightarrow> [e] | NoGempa \<Rightarrow> [] | GempaList es \<Rightarrow> []),
           completion = \<lparr> settled_at = t, outcome = Fulfilled \<rparr> \<rparr>)"

definition fetchM5Earthquakes :: "fetched \<Rightarrow> nat \<Rightarrow> branch" where
  "fetchM5Earthquakes f t =
    (case f of
       FetchError msg \<Rightarrow> \<lparr> entries = [], completion = \<lparr> settled_at = t, outcome = Fulfilled \<rparr> \<rparr>
     | Document gempaList \<Rightarrow>
         \<lparr> entries = (case gempaList of GempaList es \<Rightarrow> es | NoGempa \<Rightarrow> [] | OneGempa e \<Rightarrow> []),
           completion = \<lparr> settled_at = t, outcome = Fulfilled \<rparr> \<rparr>)"

definition fetchFeltEarthquakes :: "fetched \<Rightarrow> nat \<Rightarrow> branch" where
  "fetchFeltEarthquakes f t =
    (case f of
       FetchError msg \<Rightarrow> \<lparr> entries = [], completion = \<lparr> settled_at = t, outcome = Fulfilled \<rparr> \<rparr>
     | Document gempaList \<Rightarrow>
         \<lparr> entries = (case gempaList of GempaList es \<Rightarrow> es | NoGempa \<Rightarrow> [] | OneGempa e \<Rightarrow> []),
           completion = \<lparr> settled_at = t, outcome = Fulfilled \<rparr> \<rparr>)"

text \<open>
  The entries of a run are processed one after the other. The \<open>k\<close>-th call of
  \<^verbatim>\<open>parseAndInsertEarthquake\<close> reads the clock \<open>clock k\<close> and meets the backend reply
  \<open>replies k\<close>.
\<close>

fun insertEach ::
  "(string \<Rightarrow> jsnum) \<Rightarrow> (nat \<Rightarrow> jsnum) \<Rightarrow> (nat \<Rightarrow> reply) \<Rightarrow> nat \<Rightarrow> server \<Rightarrow> BMKGEarthquake list \<Rightarrow> server" where
  "insertEach parseDate clock replies k s [] = s"
| "insertEach parseDate clock replies k s (e # es) =
     insertEach parseDate clock replies (Suc k)
       (parseAndInsertEarthquake parseDate (clock k) s (replies k) e) es"

text \<open>
  The three runs of a cycle share the table only, and their calls interleave. A schedule
  names the run that makes the next call (0, 1, or any other number for the third); what
  is left when the schedule ends follows in the order of the runs.
\<close>

fun interleave3 :: "nat list \<Rightarrow> 'a list \<Rightarrow> 'a list \<Rightarrow> 'a list \<Rightarrow> 'a list" where
  "interleave3 [] a b c = a @ b @ c"
| "interleave3 (k # ks) a b c =
    (if k = 0 then (case a of x # a' \<Rightarrow> x # interleave3 ks a' b c | [] \<Rightarrow> interleave3 ks a b c)
     else if k = 1 then (case b of x # b' \<Rightarrow> x # interleave3 ks a b' c | [] \<Rightarrow> interleave3 ks a b c)
     else (case c of x # c' \<Rightarrow> x # interleave3 ks a b c' | [] \<Rightarrow> interleave3 ks a b c))"

definition cycle_entries :: "nat list \<Rightarrow> fetched \<Rightarrow> fetched \<Rightarrow> fetched \<Rightarrow> BMKGEarthquake list" where
  "cycle_entries schedule f1 f2 f3 =
     interleave3 schedule
       (entries (fetchLatestEarthquake f1 0))
       (entries (fetchM5Earthquakes f2 0))
       (entries (fetchFeltEarthquakes f3 0))"

text \<open>The server after a cycle: the calls of the cycle, made one after the other.\<close>

definition run_cycle ::
  "(string \<Rightarrow> jsnum) \<Rightarrow> (nat \<Rightarrow> jsnum) \<Rightarrow> (nat \<Rightarrow> reply) \<Rightarrow> nat list \<Rightarrow> server
     \<Rightarrow> fetched \<Rightarrow> fetched \<Rightarrow> fetched \<Rightarrow> server" where
  "run_cycle parseDate clock replies schedule s f1 f2 f3 =
     insertEach parseDate clock replies 0 s (cycle_entries schedule f1 f2 f3)"

text \<open>\<^verbatim>\<open>fetchAllEarthquakes\<close> awaits \<^verbatim>\<open>Promise.all\<close> of the three runs and then only logs.\<close>

definition fetchAllEarthquakes :: "fetched \<Rightarrow> nat \<Rightarrow> fetched \<Rightarrow> nat \<Rightarrow> fetched \<Rightarrow> nat \<Rightarrow> promise" where
  "fetchAllEarthquakes f1 t1 f2 t2 f3 t3 =
     promise_all
       [completion (fetchLatestEarthquake f1 t1),
        completion (fetchM5Earthquakes f2 t2),
        completion (fetchFeltEarthquakes f3 t3)]"

section \<open>Queries: routes/earthquakes\<close>

datatype 'a response = Success 'a | Failure nat string

definition db_not_configured :: string where
  "db_not_configured =
     ''Database not configured. Please set SUPABASE_URL and SUPABASE_ANON_KEY in .env''"

text \<open>A query parameter is truthy when it is present and not the empty text.\<close>

definition truthy :: "string option \<Rightarrow> bool" where
  "truthy v = (case v of None \<Rightarrow> False | Some s \<Rightarrow> s \<noteq> [])"

text \<open>
  \<^verbatim>\<open>.order("timestamp", { ascending: false })\<close>: rows by falling timestamp; rows of
  equal timestamp keep the order of the table, and a timestamp that is no number comes
  first.
\<close>

definition desc_key :: "jsnum \<Rightarrow> real option" where
  "desc_key v = (case v of NaN \<Rightarrow> None | Num t \<Rightarrow> Some (- t))"

definition order_timestamp_desc :: "'a earthquake_scheme list \<Rightarrow> 'a earthquake_scheme list" where
  "order_timestamp_desc rows = sort_key (\<lambda>e. desc_key (timestamp e)) rows"

text \<open>
  \<^verbatim>\<open>.range(from, to)\<close> asks the backend for the rows at the positions \<open>from\<close> to
  \<open>to\<close>; a range that does not start at a position \<open>0\<close> or later, or whose bounds are
  no numbers, is taken to be refused by the backend.
\<close>

definition select_range :: "jsnum \<Rightarrow> jsnum \<Rightarrow> 'a list \<Rightarrow> string + 'a list" where
  "select_range from to rows =
    (case (from, to) of
       (Num a, Num b) \<Rightarrow>
         (if 0 \<le> a \<and> a \<le> b + 1
          then Inr (take (nat \<lfloor>b - a + 1\<rfloor>) (drop (nat \<lfloor>a\<rfloor>) rows))
          else Inl ''Requested range not satisfiable'')
     | _ \<Rightarrow> Inl ''Requested range not satisfiable'')"

fun js_add :: "jsnum \<Rightarrow> jsnum \<Rightarrow> jsnum" where
  "js_add (Num a) (Num b) = Num (a + b)"
| "js_add _ _ = NaN"

record list_query =
  q_limit :: "string option"
  q_offset :: "string option"
  q_minMagnitude :: "string option"
  q_maxMagnitude :: "string option"

record pagination =
  pg_total :: nat
  pg_limit :: jsnum
  pg_offset :: jsnum

text \<open>
  \<^verbatim>\<open>GET /\<close>. The parameter \<open>err\<close> is the error the backend reported for the select,
  if any.
\<close>

definition get_earthquakes ::
  "server \<Rightarrow> string option \<Rightarrow> list_query \<Rightarrow> (earthquake list \<times> pagination) response" where
  "get_earthquakes s err q =
    (if \<not> isSupabaseAvailable s then Failure 503 db_not_configured
     else
       (let limit = (case q_limit q of None \<Rightarrow> ''50'' | Some v \<Rightarrow> v);
            offset = (case q_offset q of None \<Rightarrow> ''0'' | Some v \<Rightarrow> v);
            rows0 = table s;
            rows1 = (if truthy (q_minMagnitude q)
                     then filter (\<lambda>e. js_ge (magnitude e) (parseFloat_opt (q_minMagnitude q))) rows0
                     else rows0);
            rows2 = (if truthy (q_maxMagnitude q)
                     then filter (\<lambda>e. js_le (magnitude e) (parseFloat_opt (q_maxMagnitude q))) rows1
                     else rows1)
        in (case err of
              Some msg \<Rightarrow> Failure 500 msg
            | None \<Rightarrow>
               (case select_range (parseInt offset)
                       (js_sub (js_add (parseInt offset) (parseInt limit)) (Num 1))
                       (order_timestamp_desc rows2) of
                  Inl msg \<Rightarrow> Failure 500 msg
                | Inr page \<Rightarrow>
                    Success (page, \<lparr> pg_total = length rows2,
                                     pg_limit = parseInt limit,
                                     pg_offset = parseInt offset \<rparr>)))))"

text \<open>A record of the nearby endpoint: the stored record spread, plus its distance.\<close>

record nearby_earthquake = earthquake +
  distance :: jsnum

record nearby_query =
  q_lat :: "string option"
  q_lng :: "string option"
  q_radius :: "string option"

record nearby_body =
  nb_data :: "nearby_earthquake list"
  nb_userLocation :: "jsnum \<times> jsnum"
  nb_radius :: jsnum

text \<open>
  \<^verbatim>\<open>calculateDistance\<close> is imported from \<^verbatim>\<open>utils/distance\<close>, which is not among the
  sources; it is a parameter here. The \<^verbatim>\<open>map\<close> step spreads the record and adds the
  distance rounded to one decimal: \<^verbatim>\<open>Math.round(distance * 10) / 10\<close>, where the
  product is a double before it is rounded to an integer.
\<close>

definition round1 :: "jsnum \<Rightarrow> jsnum" where
  "round1 d = js_div (Math_round (js_mul d (Num 10))) (Num 10)"

definition with_distance ::
  "(jsnum \<Rightarrow> jsnum \<Rightarrow> jsnum \<Rightarrow> jsnum \<Rightarrow> jsnum) \<Rightarrow> jsnum \<Rightarrow> jsnum \<Rightarrow> earthquake \<Rightarrow> nearby_earthquake" where
  "with_distance calculateDistance userLat userLng eq =
    (let d = calculateDistance userLat userLng (latitude eq) (longitude eq)
     in earthquake.extend eq (nearby_earthquake.fields (round1 d)))"

definition nearbyEarthquakes ::
  "(jsnum \<Rightarrow> jsnum \<Rightarrow> jsnum \<Rightarrow> jsnum \<Rightarrow> jsnum) \<Rightarrow> jsnum \<Rightarrow> jsnum \<Rightarrow> jsnum \<Rightarrow> earthquake list
     \<Rightarrow> nearby_earthquake list" where
  "nearbyEarthquakes calculateDistance userLat userLng radiusKm allEarthquakes =
     js_sort (\<lambda>a b. js_sub (distance a) (distance b))
       (filter (\<lambda>eq. js_le (distance eq) radiusKm)
         (map (with_distance calculateDistance userLat userLng) allEarthquakes))"

definition get_nearby ::
  "(jsnum \<Rightarrow> jsnum \<Rightarrow> jsnum \<Rightarrow> jsnum \<Rightarrow> jsnum) \<Rightarrow> server \<Rightarrow> string option \<Rightarrow> nearby_query
     \<Rightarrow> nearby_body response" where
  "get_nearby calculateDistance s err q =
    (if \<not> isSupabaseAvailable s then Failure 503 db_not_configured
     else
       (let radius = (case q_radius q of None \<Rightarrow> ''100'' | Some v \<Rightarrow> v)
        in if \<not> truthy (q_lat q) \<or> \<not> truthy (q_lng q)
           then Failure 400 ''Latitude and longitude are required''
           else
             (let userLat = parseFloat_opt (q_lat q);
                  userLng = parseFloat_opt (q_lng q);
                  radiusKm = parseFloat radius
              in (case err of
                    Some msg \<Rightarrow> Failure 500 msg
                  | None \<Rightarrow>
                      Success \<lparr> nb_data = nearbyEarthquakes calculateDistance userLat userLng radiusKm
                                            (order_timestamp_desc (table s)),
                                nb_userLocation = (userLat, userLng),
                                nb_radius = radiusKm \<rparr>))))"

text \<open>
  The magnitude histogram of \<^verbatim>\<open>GET /stats\<close>: an array of four counters, and one pass
  over the magnitudes of all rows, each of the declared type \<^verbatim>\<open>number\<close>.
\<close>

definition byMagnitude_init :: "(string \<times> nat) list" where
  "byMagnitude_init = [(''<5'', 0), (''5-6'', 0), (''6-7'', 0), (''7+'', 0)]"

definition increment :: "nat \<Rightarrow> (string \<times> nat) list \<Rightarrow> (string \<times> nat) list" where
  "increment i h = (if i < length h then h[i := (fst (h ! i), snd (h ! i) + 1)] else h)"

definition bucket_index :: "jsnum \<Rightarrow> nat" where
  "bucket_index m =
    (if js_lt m (Num 5) then 0
     else if js_ge m (Num 5) \<and> js_lt m (Num 6) then 1
     else if js_ge m (Num 6) \<and> js_lt m (Num 7) then 2
     else 3)"

definition byMagnitude :: "jsnum list \<Rightarrow> (string \<times> nat) list" where
  "byMagnitude ms = foldl (\<lambda>h m. increment (bucket_index m) h) byMagnitude_init ms"

definition stats_byMagnitude :: "server \<Rightarrow> (string \<times> nat) list" where
  "stats_byMagnitude s = byMagnitude (map magnitude (table s))"

section \<open>Concrete inputs\<close>

text \<open>Inputs at which the definitions are evaluated below.\<close>

definition sample_entry :: BMKGEarthquake where
  "sample_entry =
    \<lparr> Tanggal = ''01 Jan 2024'', Jam = ''10:20:30 WIB'',
      DateTime = ''2024-01-01T03:20:30+00:00'',
      Coordinates = ''-6.20,106.80'', Lintang = ''6.20 LS'', Bujur = ''106.80 BT'',
      Magnitude = ''5.1'', Kedalaman = ''10 km'', Wilayah = ''Jakarta'',
      Potensi = ''Tidak berpotensi tsunami'', Dirasakan = None, Shakemap = None \<rparr>"

definition sample_entry_region :: BMKGEarthquake where
  "sample_entry_region = sample_entry \<lparr> Wilayah := ''Bogor'', Magnitude := ''5.3'' \<rparr>"

definition sample_entry_later :: BMKGEarthquake where
  "sample_entry_later = sample_entry \<lparr> DateTime := ''2024-01-02T03:20:30+00:00'' \<rparr>"

definition malformed_entry :: BMKGEarthquake where
  "malformed_entry =
     sample_entry \<lparr> DateTime := ''2024-01-03T03:20:30+00:00'', Magnitude := ''abc'' \<rparr>"

definition sample_parseDate :: "string \<Rightarrow> jsnum" where
  "sample_parseDate text =
    (if text = ''2024-01-01T03:20:30+00:00'' then Num 1704079230000
     else if text = ''2024-01-02T03:20:30+00:00'' then Num 1704165630000
     else if text = ''2024-01-03T03:20:30+00:00'' then Num 1704252030000
     else NaN)"

definition sample_clock :: "nat \<Rightarrow> jsnum" where
  "sample_clock k = Num (1704300000000 + real k)"

definition empty_server :: server where
  "empty_server = \<lparr> configured = True, table = [] \<rparr>"

definition accepting :: "nat \<Rightarrow> reply" where
  "accepting k = \<lparr> written = 1, failed = None \<rparr>"

definition sample_row :: "string \<Rightarrow> real \<Rightarrow> earthquake" where
  "sample_row k t =
    \<lparr> id_field = k, datetime = ''01 Jan 2024 10:20:30 WIB'', timestamp = Num t,
      magnitude = Num 5, depth = Num 10, latitude = Num (-6), longitude = Num 106,
      region = ''Jakarta'', tsunami_potential = None, felt_status = None,
      shakemap_url = None, created_at = Num 0 \<rparr>"

definition partial_failure :: reply where
  "partial_failure = \<lparr> written = 1, failed = Some (ErrorField ''row 2 rejected'') \<rparr>"

text \<open>
  A stand-in for \<^verbatim>\<open>calculateDistance\<close> where a concrete one is needed: 111.12 km for
  each degree of latitude and of longitude between the two points.
\<close>

fun js_abs_diff :: "jsnum \<Rightarrow> jsnum \<Rightarrow> jsnum" where
  "js_abs_diff (Num a) (Num b) = Num \<bar>a - b\<bar>"
| "js_abs_diff _ _ = NaN"

definition degree_distance :: "jsnum \<Rightarrow> jsnum \<Rightarrow> jsnum \<Rightarrow> jsnum \<Rightarrow> jsnum" where
  "degree_distance lat1 lon1 lat2 lon2 =
     js_mul (Num 111.12) (js_add (js_abs_diff lat2 lat1) (js_abs_diff lon2 lon1))"

definition place_row :: "string \<Rightarrow> real \<Rightarrow> real \<Rightarrow> earthquake" where
  "place_row k la lo = (sample_row k 0) \<lparr> latitude := Num la, longitude := Num lo \<rparr>"

definition nearby_server :: server where
  "nearby_server =
     \<lparr> configured = True,
       table = [place_row ''a'' 0.9 0, place_row ''b'' 0.5 0, place_row ''c'' 2 0] \<rparr>"

definition origin_query :: nearby_query where
  "origin_query = \<lparr> q_lat = Some ''0'', q_lng = Some ''0'', q_radius = None \<rparr>"

definition four_rows :: server where
  "four_rows =
     \<lparr> configured = True,
       table = [sample_row ''a'' 20, sample_row ''b'' 40, sample_row ''c'' 10, sample_row ''d'' 30] \<rparr>"

definition page_query :: "string \<Rightarrow> string \<Rightarrow> list_query" where
  "page_query limit_text offset_text =
     \<lparr> q_limit = Some limit_text, q_offset = Some offset_text, q_minMagnitude = None, q_maxMagnitude = None \<rparr>"

definition default_query :: list_query where
  "default_query =
     \<lparr> q_limit = None, q_offset = None, q_minMagnitude = None, q_maxMagnitude = None \<rparr>"

section \<open>The magnitude histogram\<close>

lemma length_increment: "length (increment i h) = length h"
  by (simp add: increment_def)

lemma map_fst_increment: "map fst (increment i h) = map fst h"
  by (simp add: increment_def list_eq_iff_nth_eq nth_list_update)

lemma nth_increment:
  "j < length h \<Longrightarrow> i < length h \<Longrightarrow>
     snd (increment i h ! j) = snd (h ! j) + (if j = i then 1 else 0)"
  by (simp add: increment_def nth_list_update)


lemma bucket_index_lt: "bucket_index m < 4"
  by (simp add: bucket_index_def)

text \<open>The pass over the magnitudes, started from any array of four counters.\<close>

lemma scan_length:
  "length h = 4 \<Longrightarrow> length (foldl (\<lambda>h m. increment (bucket_index m) h) h ms) = 4"
  by (induction ms arbitrary: h) (simp_all add: length_increment)

lemma scan_labels:
  "map fst (foldl (\<lambda>h m. increment (bucket_index m) h) h ms) = map fst h"
  by (induction ms arbitrary: h) (simp_all add: map_fst_increment)


lemma scan_count:
  "length h = 4 \<Longrightarrow> j < 4 \<Longrightarrow>
     snd (foldl (\<lambda>h m. increment (bucket_index m) h) h ms ! j)
       = snd (h ! j) + length (filter (\<lambda>m. bucket_index m = j) ms)"
proof (induction ms arbitrary: h)
  case Nil
  then show ?case by simp
next
  case (Cons m ms)
  have b: "bucket_index m < length h"
    using Cons.prems bucket_index_lt [of m] by simp
  have "snd (increment (bucket_index m) h ! j) = snd (h ! j) + (if j = bucket_index m then 1 else 0)"
    using Cons.prems b by (simp add: nth_increment)
  then show ?case
    using Cons.prems Cons.IH [of "increment (bucket_index m) h"]
    by (auto simp: length_increment)
qed

lemma bucket_index_0: "(bucket_index m = 0) = js_lt m (Num 5)"
  by (simp add: bucket_index_def)

lemma bucket_index_1: "(bucket_index m = 1) = (js_ge m (Num 5) \<and> js_lt m (Num 6))"
  by (cases m) (auto simp: bucket_index_def)

lemma bucket_index_2: "(bucket_index m = 2) = (js_ge m (Num 6) \<and> js_lt m (Num 7))"
  by (cases m) (auto simp: bucket_index_def)

lemma bucket_index_3:
  "(bucket_index m = 3) =
     (\<not> js_lt m (Num 5) \<and> \<not> (js_ge m (Num 5) \<and> js_lt m (Num 6))
        \<and> \<not> (js_ge m (Num 6) \<and> js_lt m (Num 7)))"
  by (simp add: bucket_index_def)

lemma byMagnitude_count:
  "j < 4 \<Longrightarrow> snd (byMagnitude ms ! j) = length (filter (\<lambda>m. bucket_index m = j) ms)"
proof -
  assume j: "j < 4"
  have "snd (byMagnitude_init ! j) = 0"
    using j by (auto simp: byMagnitude_init_def less_Suc_eq numeral_eq_Suc)
  then show ?thesis
    using scan_count [of byMagnitude_init j ms] j
    by (simp add: byMagnitude_def) (simp add: byMagnitude_init_def)
qed

text \<open>
  C8. The histogram of the stats endpoint always has the four buckets \<open><5\<close>, \<open>5-6\<close>,
  \<open>6-7\<close> and \<open>7+\<close>, in this order. Over all rows of the table, the first counts the
  magnitudes strictly below 5, the second those at least 5 and below 6, the third those
  at least 6 and below 7, and the last all the others. The magnitudes
  3.0, 5.0, 5.9, 6.0, 7.5 give the counts 1, 2, 1, 1.
\<close>

theorem stats_histogram_buckets:
  "map fst (stats_byMagnitude s) = [''<5'', ''5-6'', ''6-7'', ''7+'']
   \<and> snd (stats_byMagnitude s ! 0)
       = length (filter (\<lambda>e. js_lt (magnitude e) (Num 5)) (table s))
   \<and> snd (stats_byMagnitude s ! 1)
       = length (filter (\<lambda>e. js_ge (magnitude e) (Num 5) \<and> js_lt (magnitude e) (Num 6)) (table s))
   \<and> snd (stats_byMagnitude s ! 2)
       = length (filter (\<lambda>e. js_ge (magnitude e) (Num 6) \<and> js_lt (magnitude e) (Num 7)) (table s))
   \<and> snd (stats_byMagnitude s ! 3)
       = length (filter (\<lambda>e. \<not> js_lt (magnitude e) (Num 5)
                               \<and> \<not> (js_ge (magnitude e) (Num 5) \<and> js_lt (magnitude e) (Num 6))
                               \<and> \<not> (js_ge (magnitude e) (Num 6) \<and> js_lt (magnitude e) (Num 7)))
                  (table s))
   \<and> byMagnitude [Num 3.0, Num 5.0, Num 5.9, Num 6.0, Num 7.5]
       = [(''<5'', 1), (''5-6'', 2), (''6-7'', 1), (''7+'', 1)]"
proof -
  have labels: "map fst (stats_byMagnitude s) = [''<5'', ''5-6'', ''6-7'', ''7+'']"
    unfolding stats_byMagnitude_def byMagnitude_def scan_labels
    by (simp add: byMagnitude_init_def)
  have count: "snd (stats_byMagnitude s ! j)
                 = length (filter (\<lambda>e. bucket_index (magnitude e) = j) (table s))" if "j < 4" for j
    using that byMagnitude_count [of j "map magnitude (table s)"]
    by (simp add: stats_byMagnitude_def filter_map comp_def)
  have example: "byMagnitude [Num 3.0, Num 5.0, Num 5.9, Num 6.0, Num 7.5]
                   = [(''<5'', 1), (''5-6'', 2), (''6-7'', 1), (''7+'', 1)]"
    by (simp add: byMagnitude_def byMagnitude_init_def increment_def bucket_index_def)
  have c0: "snd (stats_byMagnitude s ! 0)
              = length (filter (\<lambda>e. bucket_index (magnitude e) = 0) (table s))"
    by (rule count) simp
  have c1: "snd (stats_byMagnitude s ! 1)
              = length (filter (\<lambda>e. bucket_index (magnitude e) = 1) (table s))"
    by (rule count) simp
  have c2: "snd (stats_byMagnitude s ! 2)
              = length (filter (\<lambda>e. bucket_index (magnitude e) = 2) (table s))"
    by (rule count) simp
  have c3: "snd (stats_byMagnitude s ! 3)
              = length (filter (\<lambda>e. bucket_index (magnitude e) = 3) (table s))"
    by (rule count) simp
  show ?thesis
    using labels example
          c0 [unfolded bucket_index_0] c1 [unfolded bucket_index_1]
          c2 [unfolded bucket_index_2] c3 [unfolded bucket_index_3]
    by blast
qed




section \<open>The derived id\<close>

lemma earthquakeData_id:
  "id_field (earthquakeData parseDate now entry) =
     replace_colon_space (DateTime entry @ ''_''
        @ numberToString (latitude (earthquakeData parseDate now entry)) @ ''_''
        @ numberToString (longitude (earthquakeData parseDate now entry)))"
  by (simp add: earthquakeData_def Let_def)

lemma replace_colon_space_clean:
  "c \<in> set (replace_colon_space s) \<Longrightarrow> c \<noteq> CHR '':'' \<and> \<not> isWhiteSpace c"
  by (auto simp: replace_colon_space_def isWhiteSpace_def)

lemma earthquakeData_latlon:
  "latitude (earthquakeData parseDate now entry) = latitude (earthquakeData parseDate' now' entry)"
  "longitude (earthquakeData parseDate now entry) = longitude (earthquakeData parseDate' now' entry)"
  by (simp_all add: earthquakeData_def Let_def)

text \<open>
  C1 (as amended). The id of the record built from a feed entry is the source datetime,
  the text of the parsed latitude and the text of the parsed longitude, joined with an
  underscore between them, and then every colon and every white-space character replaced
  by an underscore. It depends on nothing else: the same entry gives the same id whatever
  the clock and the date parser, and two entries with the same datetime, parsed latitude
  and parsed longitude give the same id whatever their other fields. No colon and no
  white space is left in an id.
\<close>

theorem id_derivation:
  "id_field (earthquakeData parseDate now entry) =
     replace_colon_space (DateTime entry @ ''_''
        @ numberToString (latitude (earthquakeData parseDate now entry)) @ ''_''
        @ numberToString (longitude (earthquakeData parseDate now entry)))
   \<and> id_field (earthquakeData parseDate now entry) = id_field (earthquakeData parseDate' now' entry)
   \<and> (DateTime entry = DateTime entry'
        \<and> latitude (earthquakeData parseDate now entry) = latitude (earthquakeData parseDate' now' entry')
        \<and> longitude (earthquakeData parseDate now entry) = longitude (earthquakeData parseDate' now' entry')
      \<longrightarrow> id_field (earthquakeData parseDate now entry) = id_field (earthquakeData parseDate' now' entry'))
   \<and> (\<forall>c \<in> set (id_field (earthquakeData parseDate now entry)). c \<noteq> CHR '':'' \<and> \<not> isWhiteSpace c)"
proof -
  have same: "id_field (earthquakeData parseDate now entry) = id_field (earthquakeData parseDate' now' entry)"
    by (simp add: earthquakeData_def Let_def)
  have key: "id_field (earthquakeData parseDate now entry) = id_field (earthquakeData parseDate' now' entry')"
    if "DateTime entry = DateTime entry'"
      and "latitude (earthquakeData parseDate now entry) = latitude (earthquakeData parseDate' now' entry')"
      and "longitude (earthquakeData parseDate now entry) = longitude (earthquakeData parseDate' now' entry')"
    using that unfolding earthquakeData_id by simp
  have clean: "\<forall>c \<in> set (id_field (earthquakeData parseDate now entry)). c \<noteq> CHR '':'' \<and> \<not> isWhiteSpace c"
    unfolding earthquakeData_id using replace_colon_space_clean by blast
  show ?thesis
    using earthquakeData_id [of parseDate now entry] same key clean by blast
qed

theorem id_derivation_witness:
  "DateTime sample_entry = DateTime sample_entry_region
   \<and> Wilayah sample_entry \<noteq> Wilayah sample_entry_region
   \<and> latitude (earthquakeData sample_parseDate (Num 0) sample_entry)
       = latitude (earthquakeData sample_parseDate (Num 1) sample_entry_region)
   \<and> longitude (earthquakeData sample_parseDate (Num 0) sample_entry)
       = longitude (earthquakeData sample_parseDate (Num 1) sample_entry_region)
   \<and> id_field (earthquakeData sample_parseDate (Num 0) sample_entry)
       = id_field (earthquakeData sample_parseDate (Num 1) sample_entry_region)
   \<and> id_field (earthquakeData sample_parseDate (Num 0) sample_entry)
       = ''2024-01-01T03_20_30+00_00_-6.2_106.8''
   \<and> CHR '':'' \<notin> set (id_field (earthquakeData sample_parseDate (Num 0) sample_entry))
   \<and> CHR '' '' \<notin> set (id_field (earthquakeData sample_parseDate (Num 0) sample_entry))"
proof -
  have d: "DateTime sample_entry = DateTime sample_entry_region"
    and w: "Wilayah sample_entry \<noteq> Wilayah sample_entry_region"
    by (simp_all add: sample_entry_region_def sample_entry_def)
  have c: "Coordinates sample_entry = Coordinates sample_entry_region"
    by (simp add: sample_entry_region_def)
  have la: "latitude (earthquakeData sample_parseDate (Num 0) sample_entry)
       = latitude (earthquakeData sample_parseDate (Num 1) sample_entry_region)"
    and lo: "longitude (earthquakeData sample_parseDate (Num 0) sample_entry)
       = longitude (earthquakeData sample_parseDate (Num 1) sample_entry_region)"
    using c by (simp_all add: earthquakeData_def Let_def)
  have v: "id_field (earthquakeData sample_parseDate (Num 0) sample_entry)
       = ''2024-01-01T03_20_30+00_00_-6.2_106.8''"
    by code_simp
  have sp: "isWhiteSpace (CHR '' '')"
    by (simp add: isWhiteSpace_def)
  note t = id_derivation
             [of sample_parseDate "Num 0" sample_entry sample_parseDate "Num 1" sample_entry_region]
  have same: "id_field (earthquakeData sample_parseDate (Num 0) sample_entry)
       = id_field (earthquakeData sample_parseDate (Num 1) sample_entry_region)"
    using t d la lo by blast
  have c1: "CHR '':'' \<notin> set (id_field (earthquakeData sample_parseDate (Num 0) sample_entry))"
    using t by blast
  have c2: "CHR '' '' \<notin> set (id_field (earthquakeData sample_parseDate (Num 0) sample_entry))"
    using t sp by blast
  show ?thesis
    by (intro conjI) (rule d w la lo same v c1 c2)+
qed

text \<open>
  The id is not the plain concatenation of the three parts: the underscores that join
  them are part of it.
\<close>

theorem id_plain_concatenation_counterexample:
  "id_field (earthquakeData sample_parseDate (Num 0) sample_entry)
     \<noteq> replace_colon_space (DateTime sample_entry
          @ numberToString (latitude (earthquakeData sample_parseDate (Num 0) sample_entry))
          @ numberToString (longitude (earthquakeData sample_parseDate (Num 0) sample_entry)))"
  by code_simp

section \<open>Upsert\<close>

lemma store_upsert_ids:
  "id_field ` set (store_upsert tbl r) = insert (id_field r) (id_field ` set tbl)"
  by (auto simp: store_upsert_def image_iff)

lemma replace_twice:
  "id_field r1 = id_field r2 \<Longrightarrow>
     map (\<lambda>x. if id_field x = id_field r2 then r2 else x)
       (map (\<lambda>x. if id_field x = id_field r1 then r1 else x) tbl)
     = map (\<lambda>x. if id_field x = id_field r2 then r2 else x) tbl"
  by (induction tbl) auto

lemma replace_absent:
  "id_field r \<notin> id_field ` set tbl \<Longrightarrow>
     map (\<lambda>x. if id_field x = id_field r then r' else x) tbl = tbl"
  by (induction tbl) auto

lemma store_upsert_replace:
  "id_field r1 = id_field r2 \<Longrightarrow> store_upsert (store_upsert tbl r1) r2 = store_upsert tbl r2"
proof (cases "id_field r2 \<in> id_field ` set tbl")
  case True
  assume e: "id_field r1 = id_field r2"
  then show ?thesis
    using True replace_twice [OF e, of tbl]
    by (auto simp: store_upsert_def image_iff)
next
  case False
  assume e: "id_field r1 = id_field r2"
  then show ?thesis
    using False replace_absent [of r2 tbl r2]
    by (simp add: store_upsert_def)
qed

lemma store_upsert_idem: "store_upsert (store_upsert tbl r) r = store_upsert tbl r"
  by (rule store_upsert_replace) simp

lemma find_replace:
  "find (\<lambda>x. id_field x = k) (map (\<lambda>x. if id_field x = id_field r then r else x) tbl)
     = (if k = id_field r
        then (if id_field r \<in> id_field ` set tbl then Some r else None)
        else find (\<lambda>x. id_field x = k) tbl)"
  by (induction tbl) auto

lemma find_absent: "k \<notin> id_field ` set tbl \<Longrightarrow> find (\<lambda>x. id_field x = k) tbl = None"
  by (induction tbl) auto

lemma find_snoc:
  "find P (xs @ [y]) = (case find P xs of Some x \<Rightarrow> Some x | None \<Rightarrow> if P y then Some y else None)"
  by (induction xs) auto

lemma store_get_upsert: "store_get (store_upsert tbl r) (id_field r) = Some r"
  by (simp add: store_get_def store_upsert_def find_replace find_snoc find_absent)

lemma store_get_upsert_other:
  "k \<noteq> id_field r \<Longrightarrow> store_get (store_upsert tbl r) k = store_get tbl k"
  by (auto simp: store_get_def store_upsert_def find_replace find_snoc split: option.splits)

lemma backend_upsert_single:
  "backend_upsert tbl [r] rp = (if written rp = 0 then tbl else store_upsert tbl r)"
  by (cases "written rp") (simp_all add: backend_upsert_def)

lemma table_upsertEarthquake:
  "table (fst (upsertEarthquake s rp r)) =
     (if configured s \<and> written rp \<noteq> 0 then store_upsert (table s) r else table s)"
  by (simp add: upsertEarthquake_def backend_upsert_single)

lemma configured_upsertEarthquake: "configured (fst (upsertEarthquake s rp r)) = configured s"
  by (simp add: upsertEarthquake_def)

text \<open>
  C2. Upserting a record twice leaves the server as upserting it once does, and so the
  lookup of its id gives the same. Once an upsert of the record was persisted, a further
  upsert of it changes nothing, whatever the backend does with it, and the lookup gives
  the record. A persisted upsert of a later record with the same id replaces the earlier
  one: the lookup gives the later record, and the table is the one that upserting the
  later record alone gives.
\<close>

theorem upsert_idempotent:
  "fst (upsertEarthquake (fst (upsertEarthquake s rp r)) rp r) = fst (upsertEarthquake s rp r)
   \<and> store_get (table (fst (upsertEarthquake (fst (upsertEarthquake s rp r)) rp r))) (id_field r)
       = store_get (table (fst (upsertEarthquake s rp r))) (id_field r)
   \<and> (configured s \<and> written rp \<noteq> 0 \<longrightarrow>
        fst (upsertEarthquake (fst (upsertEarthquake s rp r)) rp' r) = fst (upsertEarthquake s rp r)
        \<and> store_get (table (fst (upsertEarthquake s rp r))) (id_field r) = Some r)
   \<and> (configured s \<and> written rp' \<noteq> 0 \<and> id_field r' = id_field r \<longrightarrow>
        store_get (table (fst (upsertEarthquake (fst (upsertEarthquake s rp r)) rp' r'))) (id_field r) = Some r'
        \<and> (written rp \<noteq> 0 \<longrightarrow>
             fst (upsertEarthquake (fst (upsertEarthquake s rp r)) rp' r') = fst (upsertEarthquake s rp' r')))"
proof -
  have eq: "s1 = s2" if "configured s1 = configured s2" "table s1 = table s2" for s1 s2 :: server
    using that by simp
  have a: "fst (upsertEarthquake (fst (upsertEarthquake s rp r)) rp r) = fst (upsertEarthquake s rp r)"
    by (rule eq) (simp_all add: table_upsertEarthquake configured_upsertEarthquake store_upsert_idem)
  have b: "fst (upsertEarthquake (fst (upsertEarthquake s rp r)) rp' r) = fst (upsertEarthquake s rp r)"
    if "configured s" "written rp \<noteq> 0"
    using that
    by (intro eq) (simp_all add: table_upsertEarthquake configured_upsertEarthquake store_upsert_idem)
  have c: "store_get (table (fst (upsertEarthquake s rp r))) (id_field r) = Some r"
    if "configured s" "written rp \<noteq> 0"
    using that by (simp add: table_upsertEarthquake store_get_upsert)
  have d: "store_get (table (fst (upsertEarthquake (fst (upsertEarthquake s rp r)) rp' r'))) (id_field r) = Some r'"
    if "configured s" "written rp' \<noteq> 0" "id_field r' = id_field r"
    using that store_get_upsert [of _ r']
    by (simp add: table_upsertEarthquake configured_upsertEarthquake)
  have e: "fst (upsertEarthquake (fst (upsertEarthquake s rp r)) rp' r') = fst (upsertEarthquake s rp' r')"
    if "configured s" "written rp' \<noteq> 0" "id_field r' = id_field r" "written rp \<noteq> 0"
    using that
    by (intro eq) (simp_all add: table_upsertEarthquake configured_upsertEarthquake store_upsert_replace)
  show ?thesis
    using a b c d e by simp
qed


theorem upsert_idempotent_witness:
  "configured empty_server \<and> written (accepting 0) \<noteq> 0 \<and> written (accepting 1) \<noteq> 0
   \<and> id_field (sample_row ''a'' 2) = id_field (sample_row ''a'' 1)
   \<and> sample_row ''a'' 2 \<noteq> sample_row ''a'' 1
   \<and> fst (upsertEarthquake (fst (upsertEarthquake empty_server (accepting 0) (sample_row ''a'' 1)))
             (accepting 0) (sample_row ''a'' 1))
       = fst (upsertEarthquake empty_server (accepting 0) (sample_row ''a'' 1))
   \<and> store_get (table (fst (upsertEarthquake empty_server (accepting 0) (sample_row ''a'' 1)))) ''a''
       = Some (sample_row ''a'' 1)
   \<and> store_get (table (fst (upsertEarthquake
                               (fst (upsertEarthquake empty_server (accepting 0) (sample_row ''a'' 1)))
                               (accepting 1) (sample_row ''a'' 2)))) ''a''
       = Some (sample_row ''a'' 2)"
proof -
  have h: "configured empty_server" "written (accepting 0) \<noteq> 0" "written (accepting 1) \<noteq> 0"
    "id_field (sample_row ''a'' 2) = id_field (sample_row ''a'' 1)"
    "id_field (sample_row ''a'' 1) = ''a''"
    "sample_row ''a'' 2 \<noteq> sample_row ''a'' 1"
    by (simp_all add: empty_server_def accepting_def sample_row_def)
  show ?thesis
    using upsert_idempotent
            [of empty_server "accepting 0" "sample_row ''a'' 1" "accepting 1" "sample_row ''a'' 2"] h
    by metis
qed

section \<open>Batch upsert\<close>

lemma count_upsertEarthquakes:
  "snd (upsertEarthquakes s rp eqs)
     = (if configured s \<and> eqs \<noteq> [] \<and> failed rp = None then length eqs else 0)"
  by (simp add: upsertEarthquakes_def split: option.splits backend_failure.splits)

text \<open>
  C4 (as amended). The batch upsert makes one request and returns the number of records
  it was given when the client is configured and the backend reported no failure, and
  0 in every other case: an unconfigured client, an empty list, an error reported or an
  exception thrown. The result is never a count in between, and a failure of the backend
  is turned into the result 0, not raised. When nothing failed and the backend persisted
  the whole request, the table holds every record given.
\<close>

theorem batch_upsert_count:
  "snd (upsertEarthquakes s rp eqs)
     = (if configured s \<and> eqs \<noteq> [] \<and> failed rp = None then length eqs else 0)
   \<and> (snd (upsertEarthquakes s rp eqs) = 0 \<or> snd (upsertEarthquakes s rp eqs) = length eqs)
   \<and> (failed rp \<noteq> None \<longrightarrow> snd (upsertEarthquakes s rp eqs) = 0)
   \<and> (configured s \<and> failed rp = None \<and> length eqs \<le> written rp \<longrightarrow>
        table (fst (upsertEarthquakes s rp eqs)) = foldl store_upsert (table s) eqs)"
proof -
  have t: "table (fst (upsertEarthquakes s rp eqs)) = foldl store_upsert (table s) eqs"
    if "configured s" "length eqs \<le> written rp"
    using that by (cases eqs) (simp_all add: upsertEarthquakes_def backend_upsert_def)
  show ?thesis
    using t by (simp add: count_upsertEarthquakes)
qed

theorem batch_upsert_count_witness:
  "configured empty_server \<and> failed partial_failure \<noteq> None
   \<and> failed \<lparr> written = 2, failed = None \<rparr> = None
   \<and> snd (upsertEarthquakes empty_server partial_failure [sample_row ''a'' 1, sample_row ''b'' 2]) = 0
   \<and> snd (upsertEarthquakes empty_server \<lparr> written = 2, failed = None \<rparr>
             [sample_row ''a'' 1, sample_row ''b'' 2]) = 2
   \<and> table (fst (upsertEarthquakes empty_server \<lparr> written = 2, failed = None \<rparr>
                    [sample_row ''a'' 1, sample_row ''b'' 2]))
       = [sample_row ''a'' 1, sample_row ''b'' 2]"
proof -
  have h: "configured empty_server" "failed partial_failure \<noteq> None"
    by (simp_all add: empty_server_def partial_failure_def)
  have f: "foldl store_upsert (table empty_server) [sample_row ''a'' 1, sample_row ''b'' 2]
             = [sample_row ''a'' 1, sample_row ''b'' 2]"
    by (simp add: empty_server_def store_upsert_def sample_row_def)
  show ?thesis
    using batch_upsert_count [of empty_server partial_failure "[sample_row ''a'' 1, sample_row ''b'' 2]"]
          batch_upsert_count [of empty_server "\<lparr> written = 2, failed = None \<rparr>"
                                 "[sample_row ''a'' 1, sample_row ''b'' 2]"]
          h f
    by simp
qed

text \<open>
  When the backend persists the first of two records and reports an error for the
  second, one record is in the table and the result is 0: the result is not the number
  of records persisted.
\<close>

theorem batch_upsert_partial_counterexample:
  "length (table (fst (upsertEarthquakes empty_server partial_failure
                         [sample_row ''a'' 1, sample_row ''b'' 2]))) = 1
   \<and> snd (upsertEarthquakes empty_server partial_failure [sample_row ''a'' 1, sample_row ''b'' 2])
       \<noteq> length (table (fst (upsertEarthquakes empty_server partial_failure
                                [sample_row ''a'' 1, sample_row ''b'' 2])))"
  by (simp add: upsertEarthquakes_def empty_server_def partial_failure_def backend_upsert_def
        store_upsert_def)

section \<open>Entries that do not parse\<close>

text \<open>
  C3, evaluated at an entry whose magnitude text is \<open>abc\<close>. The record is built with
  the magnitude \<open>NaN\<close> and handed to the upsert; with a backend that accepts it, it is
  the row of the table. A feed of three entries of which this is one gives three rows.
  An entry whose coordinates have no comma is built with the longitude \<open>NaN\<close> in the
  same way.
\<close>

theorem malformed_entry_is_written:
  "magnitude (earthquakeData sample_parseDate (Num 0) malformed_entry) = NaN
   \<and> table (parseAndInsertEarthquake sample_parseDate (Num 0) empty_server (accepting 0)
              malformed_entry)
       = [earthquakeData sample_parseDate (Num 0) malformed_entry]
   \<and> length (table (insertEach sample_parseDate sample_clock accepting 0 empty_server
                (entries (fetchM5Earthquakes
                   (Document (GempaList [sample_entry, malformed_entry, sample_entry_later])) 0))))
       = 3
   \<and> longitude (earthquakeData sample_parseDate (Num 0) (sample_entry \<lparr> Coordinates := ''-6.20'' \<rparr>))
       = NaN"
proof -
  have m: "magnitude (earthquakeData sample_parseDate (Num 0) malformed_entry) = NaN"
    by code_simp
  have t: "table (parseAndInsertEarthquake sample_parseDate (Num 0) empty_server (accepting 0)
              malformed_entry)
       = [earthquakeData sample_parseDate (Num 0) malformed_entry]"
    by (simp add: parseAndInsertEarthquake_def upsertEarthquake_def empty_server_def
          accepting_def backend_upsert_def store_upsert_def)
  have n: "length (table (insertEach sample_parseDate sample_clock accepting 0 empty_server
                (entries (fetchM5Earthquakes
                   (Document (GempaList [sample_entry, malformed_entry, sample_entry_later])) 0))))
       = 3"
    by code_simp
  have l: "longitude (earthquakeData sample_parseDate (Num 0) (sample_entry \<lparr> Coordinates := ''-6.20'' \<rparr>))
       = NaN"
    by code_simp
  show ?thesis
    using m t n l by simp
qed

section \<open>The ingestion cycle\<close>

lemma mset_interleave3: "mset (interleave3 ks a b c) = mset a + mset b + mset c"
  by (induction ks arbitrary: a b c) (auto split: list.splits)

lemma branch_outcomes:
  "outcome (completion (fetchLatestEarthquake f t)) = Fulfilled"
  "outcome (completion (fetchM5Earthquakes f t)) = Fulfilled"
  "outcome (completion (fetchFeltEarthquakes f t)) = Fulfilled"
  by (simp_all add: fetchLatestEarthquake_def fetchM5Earthquakes_def fetchFeltEarthquakes_def
        split: fetched.splits)

lemma branch_times:
  "settled_at (completion (fetchLatestEarthquake f t)) = t"
  "settled_at (completion (fetchM5Earthquakes f t)) = t"
  "settled_at (completion (fetchFeltEarthquakes f t)) = t"
  by (simp_all add: fetchLatestEarthquake_def fetchM5Earthquakes_def fetchFeltEarthquakes_def
        split: fetched.splits)

lemma branch_entries_time:
  "entries (fetchLatestEarthquake f t) = entries (fetchLatestEarthquake f 0)"
  "entries (fetchM5Earthquakes f t) = entries (fetchM5Earthquakes f 0)"
  "entries (fetchFeltEarthquakes f t) = entries (fetchFeltEarthquakes f 0)"
  by (simp_all add: fetchLatestEarthquake_def fetchM5Earthquakes_def fetchFeltEarthquakes_def
        split: fetched.splits)

text \<open>
  C5. Whatever the three fetches give, the promise of \<^verbatim>\<open>fetchAllEarthquakes\<close> is
  fulfilled, never rejected, and it settles at the latest of the times at which the three
  runs settle. Each run is fulfilled whether its fetch failed or not. A run whose fetch
  failed hands no entry to the insertion, and the calls of the cycle are then, under
  every schedule, exactly the entries of the other two runs. In general the calls of a
  cycle are the entries of the three runs, each run's entries depending on its own fetch
  only. For the table, a feed whose fetch failed counts as a feed with no entry, and
  when all three fetches fail the server is left as it was.
\<close>

theorem fetch_failure_isolated:
  "fetchAllEarthquakes f1 t1 f2 t2 f3 t3
     = \<lparr> settled_at = max t1 (max t2 t3), outcome = Fulfilled \<rparr>
   \<and> outcome (completion (fetchLatestEarthquake f t)) = Fulfilled
   \<and> outcome (completion (fetchM5Earthquakes f t)) = Fulfilled
   \<and> outcome (completion (fetchFeltEarthquakes f t)) = Fulfilled
   \<and> entries (fetchLatestEarthquake (FetchError msg) t) = []
   \<and> entries (fetchM5Earthquakes (FetchError msg) t) = []
   \<and> entries (fetchFeltEarthquakes (FetchError msg) t) = []
   \<and> mset (cycle_entries schedule (FetchError msg) f2 f3)
       = mset (entries (fetchM5Earthquakes f2 t2)) + mset (entries (fetchFeltEarthquakes f3 t3))
   \<and> mset (cycle_entries schedule f1 (FetchError msg) f3)
       = mset (entries (fetchLatestEarthquake f1 t1)) + mset (entries (fetchFeltEarthquakes f3 t3))
   \<and> mset (cycle_entries schedule f1 f2 (FetchError msg))
       = mset (entries (fetchLatestEarthquake f1 t1)) + mset (entries (fetchM5Earthquakes f2 t2))
   \<and> mset (cycle_entries schedule f1 f2 f3)
       = mset (entries (fetchLatestEarthquake f1 t1)) + mset (entries (fetchM5Earthquakes f2 t2))
         + mset (entries (fetchFeltEarthquakes f3 t3))
   \<and> run_cycle parseDate clock replies schedule s (FetchError msg) f2 f3
       = run_cycle parseDate clock replies schedule s (Document NoGempa) f2 f3
   \<and> run_cycle parseDate clock replies schedule s f1 (FetchError msg) f3
       = run_cycle parseDate clock replies schedule s f1 (Document NoGempa) f3
   \<and> run_cycle parseDate clock replies schedule s f1 f2 (FetchError msg)
       = run_cycle parseDate clock replies schedule s f1 f2 (Document NoGempa)
   \<and> run_cycle parseDate clock replies schedule s (FetchError msg) (FetchError msg') (FetchError msg'')
       = s"
proof -
  have same: "cycle_entries schedule (FetchError msg) f2 f3 = cycle_entries schedule (Document NoGempa) f2 f3"
    "cycle_entries schedule f1 (FetchError msg) f3 = cycle_entries schedule f1 (Document NoGempa) f3"
    "cycle_entries schedule f1 f2 (FetchError msg) = cycle_entries schedule f1 f2 (Document NoGempa)"
    by (simp_all add: cycle_entries_def fetchLatestEarthquake_def fetchM5Earthquakes_def
          fetchFeltEarthquakes_def)
  have "mset (cycle_entries schedule (FetchError msg) (FetchError msg') (FetchError msg'')) = {#}"
    unfolding cycle_entries_def mset_interleave3
    by (simp add: fetchLatestEarthquake_def fetchM5Earthquakes_def fetchFeltEarthquakes_def)
  then have idle_entries: "cycle_entries schedule (FetchError msg) (FetchError msg') (FetchError msg'') = []"
    by simp
  have runs: "run_cycle parseDate clock replies schedule s (FetchError msg) f2 f3
       = run_cycle parseDate clock replies schedule s (Document NoGempa) f2 f3"
    "run_cycle parseDate clock replies schedule s f1 (FetchError msg) f3
       = run_cycle parseDate clock replies schedule s f1 (Document NoGempa) f3"
    "run_cycle parseDate clock replies schedule s f1 f2 (FetchError msg)
       = run_cycle parseDate clock replies schedule s f1 f2 (Document NoGempa)"
    by (simp_all add: run_cycle_def same)
  have idle: "run_cycle parseDate clock replies schedule s (FetchError msg) (FetchError msg') (FetchError msg'')
       = s"
    by (simp add: run_cycle_def idle_entries)
  have join: "fetchAllEarthquakes f1 t1 f2 t2 f3 t3
     = \<lparr> settled_at = max t1 (max t2 t3), outcome = Fulfilled \<rparr>"
    by (simp add: fetchAllEarthquakes_def promise_all_def branch_outcomes branch_times)
  have none: "entries (fetchLatestEarthquake (FetchError msg) u) = []"
    "entries (fetchM5Earthquakes (FetchError msg) u) = []"
    "entries (fetchFeltEarthquakes (FetchError msg) u) = []" for u
    by (simp_all add: fetchLatestEarthquake_def fetchM5Earthquakes_def fetchFeltEarthquakes_def)
  have calls: "mset (cycle_entries schedule g1 g2 g3)
       = mset (entries (fetchLatestEarthquake g1 t1)) + mset (entries (fetchM5Earthquakes g2 t2))
         + mset (entries (fetchFeltEarthquakes g3 t3))" for g1 g2 g3
    unfolding cycle_entries_def mset_interleave3
    using branch_entries_time [of g1 t1] branch_entries_time [of g2 t2] branch_entries_time [of g3 t3]
    by simp
  show ?thesis
    using join none [of t] none [of t1] none [of t2] none [of t3] branch_outcomes [of f t]
          calls [of "FetchError msg" f2 f3] calls [of f1 "FetchError msg" f3]
          calls [of f1 f2 "FetchError msg"] calls [of f1 f2 f3] runs idle
    by simp
qed

section \<open>The nearby endpoint\<close>

lemma mset_js_insort: "mset (js_insort cmp x ys) = add_mset x (mset ys)"
  by (induction ys) auto

lemma mset_js_sort: "mset (js_sort cmp xs) = mset xs"
  by (induction xs) (simp_all add: js_sort_def mset_js_insort)

lemma set_js_sort: "set (js_sort cmp xs) = set xs"
  using mset_js_sort [of cmp xs] by (metis set_mset_mset)

lemma set_js_insort: "set (js_insort cmp x ys) = insert x (set ys)"
  using mset_js_insort [of cmp x ys] by (metis set_mset_mset set_mset_add_mset_insert)

lemma js_le_trans: "js_le a b \<Longrightarrow> js_le b c \<Longrightarrow> js_le a c"
  by (cases a; cases b; cases c) auto

lemma by_distance_cases:
  "distance x \<noteq> NaN \<Longrightarrow> distance y \<noteq> NaN \<Longrightarrow>
     (if js_lt (Num 0) (js_sub (distance x) (distance y))
      then js_le (distance y) (distance x) else js_le (distance x) (distance y))"
  by (cases "distance x"; cases "distance y") auto

lemma sorted_js_insort:
  "distance x \<noteq> NaN \<Longrightarrow> \<forall>y \<in> set ys. distance y \<noteq> NaN \<Longrightarrow>
   sorted_wrt (\<lambda>a b. js_le (distance a) (distance b)) ys \<Longrightarrow>
   sorted_wrt (\<lambda>a b. js_le (distance a) (distance b))
     (js_insort (\<lambda>a b. js_sub (distance a) (distance b)) x ys)"
proof (induction ys)
  case Nil
  then show ?case by simp
next
  case (Cons y ys)
  have xy: "if js_lt (Num 0) (js_sub (distance x) (distance y))
      then js_le (distance y) (distance x) else js_le (distance x) (distance y)"
    using Cons.prems by (intro by_distance_cases) simp_all
  show ?case
  proof (cases "js_lt (Num 0) (js_sub (distance x) (distance y))")
    case True
    then show ?thesis
      using Cons xy by (auto simp: set_js_insort)
  next
    case False
    then have "js_le (distance x) (distance y)"
      using xy by simp
    then show ?thesis
      using Cons.prems False by (auto intro: js_le_trans)
  qed
qed

lemma sorted_js_sort:
  "\<forall>y \<in> set xs. distance y \<noteq> NaN \<Longrightarrow>
   sorted_wrt (\<lambda>a b. js_le (distance a) (distance b))
     (js_sort (\<lambda>a b. js_sub (distance a) (distance b)) xs)"
proof (induction xs)
  case Nil
  then show ?case by (simp add: js_sort_def)
next
  case (Cons x xs)
  have "sorted_wrt (\<lambda>a b. js_le (distance a) (distance b))
     (js_insort (\<lambda>a b. js_sub (distance a) (distance b)) x
        (js_sort (\<lambda>a b. js_sub (distance a) (distance b)) xs))"
    using Cons by (intro sorted_js_insort) (simp_all add: set_js_sort)
  then show ?case by (simp add: js_sort_def)
qed

lemma js_le_not_NaN: "js_le a b \<Longrightarrow> a \<noteq> NaN"
  by (cases a) auto

lemma distance_with_distance:
  "distance (with_distance calc la lo eq) = round1 (calc la lo (latitude eq) (longitude eq))"
  by (simp add: with_distance_def Let_def earthquake.defs nearby_earthquake.defs)

lemma truncate_with_distance:
  "earthquake.truncate (with_distance calc la lo eq) = eq"
  by (simp add: with_distance_def Let_def earthquake.defs nearby_earthquake.defs)

lemma filter_with_distance:
  "filter (\<lambda>e. js_le (distance e) r) (map (with_distance calc la lo) rows)
     = map (with_distance calc la lo)
         (filter (\<lambda>eq. js_le (round1 (calc la lo (latitude eq) (longitude eq))) r) rows)"
  by (simp add: filter_map comp_def distance_with_distance)

lemma mset_nearbyEarthquakes:
  "mset (nearbyEarthquakes calc la lo r rows)
     = mset (map (with_distance calc la lo)
         (filter (\<lambda>eq. js_le (round1 (calc la lo (latitude eq) (longitude eq))) r) rows))"
  unfolding nearbyEarthquakes_def mset_js_sort filter_with_distance ..

lemma sorted_nearbyEarthquakes:
  "sorted_wrt (\<lambda>a b. js_le (distance a) (distance b)) (nearbyEarthquakes calc la lo r rows)"
  unfolding nearbyEarthquakes_def
  by (rule sorted_js_sort) (auto dest: js_le_not_NaN)

text \<open>
  Rounding to one decimal at products that are a tie, or next to one, as doubles: the
  product of 6.449999999999999 and 10 is the double 64.5, and that of 100.05 and 10 is
  1000.5.
\<close>

lemmas double_defs = to_double_def normalise.simps round_half_even_def

lemma round1_examples:
  "round1 (Num 100.04) = Num 100"
  "round1 (Num 6.449999999999999) = Num 6.5"
  "round1 (Num 100.05) = Num 100.1"
  "round1 (Num 6.44) = Num 6.4"
  "round1 NaN = NaN"
  by (simp_all add: round1_def double_defs)

lemma mset_order_timestamp_desc: "mset (order_timestamp_desc rows) = mset rows"
  by (simp add: order_timestamp_desc_def)

lemma set_order_timestamp_desc: "set (order_timestamp_desc rows) = set rows"
  by (simp add: order_timestamp_desc_def)

lemma latlon_with_distance:
  "latitude (with_distance calc la lo eq) = latitude eq"
  "longitude (with_distance calc la lo eq) = longitude eq"
  by (simp_all add: with_distance_def Let_def earthquake.defs nearby_earthquake.defs)

lemma set_nearbyEarthquakes:
  "set (nearbyEarthquakes calc la lo r rows)
     = with_distance calc la lo
         ` {eq \<in> set rows. js_le (round1 (calc la lo (latitude eq) (longitude eq))) r}"
  unfolding nearbyEarthquakes_def set_js_sort filter_with_distance
  by simp

lemma nearby_member:
  "with_distance calc la lo eq \<in> set (nearbyEarthquakes calc la lo r rows)
     = (eq \<in> set rows \<and> js_le (round1 (calc la lo (latitude eq) (longitude eq))) r)"
proof
  assume "with_distance calc la lo eq \<in> set (nearbyEarthquakes calc la lo r rows)"
  then have "with_distance calc la lo eq \<in> with_distance calc la lo
         ` {eq \<in> set rows. js_le (round1 (calc la lo (latitude eq) (longitude eq))) r}"
    by (simp only: set_nearbyEarthquakes)
  then obtain eq' where e: "with_distance calc la lo eq = with_distance calc la lo eq'"
    and m: "eq' \<in> {eq \<in> set rows. js_le (round1 (calc la lo (latitude eq) (longitude eq))) r}"
    by (rule imageE)
  have "earthquake.truncate (with_distance calc la lo eq)
          = earthquake.truncate (with_distance calc la lo eq')"
    by (simp only: e)
  then have "eq = eq'"
    by (simp only: truncate_with_distance)
  then show "eq \<in> set rows \<and> js_le (round1 (calc la lo (latitude eq) (longitude eq))) r"
    using m by (simp only: mem_Collect_eq)
next
  assume "eq \<in> set rows \<and> js_le (round1 (calc la lo (latitude eq) (longitude eq))) r"
  then have "eq \<in> {eq \<in> set rows. js_le (round1 (calc la lo (latitude eq) (longitude eq))) r}"
    by (simp only: mem_Collect_eq)
  then show "with_distance calc la lo eq \<in> set (nearbyEarthquakes calc la lo r rows)"
    unfolding set_nearbyEarthquakes by (rule imageI)
qed

lemma get_nearby_success:
  "configured s \<Longrightarrow> truthy (q_lat q) \<Longrightarrow> truthy (q_lng q) \<Longrightarrow>
   get_nearby calc s None q =
     Success \<lparr> nb_data = nearbyEarthquakes calc (parseFloat_opt (q_lat q)) (parseFloat_opt (q_lng q))
                           (parseFloat (case q_radius q of None \<Rightarrow> ''100'' | Some v \<Rightarrow> v))
                           (order_timestamp_desc (table s)),
               nb_userLocation = (parseFloat_opt (q_lat q), parseFloat_opt (q_lng q)),
               nb_radius = parseFloat (case q_radius q of None \<Rightarrow> ''100'' | Some v \<Rightarrow> v) \<rparr>"
  by (simp add: get_nearby_def isSupabaseAvailable_def Let_def)

text \<open>
  C6 (as amended). For a configured server and a request with latitude and longitude,
  the nearby endpoint answers with the rows of the whole table whose distance from the
  query point, rounded to one decimal, is at most the radius (100 when none is given):
  each row once, spread unchanged and annotated with that rounded distance, the list
  ascending by it. A row whose rounded distance equals the radius is in the answer, and a
  row whose rounded distance is above the radius is not.
\<close>

theorem nearby_by_rounded_distance:
  "mset (nearbyEarthquakes calc la lo r rows)
     = mset (map (with_distance calc la lo)
         (filter (\<lambda>eq. js_le (round1 (calc la lo (latitude eq) (longitude eq))) r) rows))
   \<and> earthquake.truncate (with_distance calc la lo eq) = eq
   \<and> distance (with_distance calc la lo eq) = round1 (calc la lo (latitude eq) (longitude eq))
   \<and> sorted_wrt (\<lambda>a b. js_le (distance a) (distance b)) (nearbyEarthquakes calc la lo r rows)
   \<and> (eq \<in> set rows \<and> round1 (calc la lo (latitude eq) (longitude eq)) = r \<and> r \<noteq> NaN
        \<longrightarrow> with_distance calc la lo eq \<in> set (nearbyEarthquakes calc la lo r rows))
   \<and> (js_lt r (round1 (calc la lo (latitude eq) (longitude eq)))
        \<longrightarrow> with_distance calc la lo eq \<notin> set (nearbyEarthquakes calc la lo r rows))
   \<and> (configured s \<and> truthy (q_lat q) \<and> truthy (q_lng q) \<longrightarrow>
        get_nearby calc s None q =
          Success \<lparr> nb_data = nearbyEarthquakes calc (parseFloat_opt (q_lat q)) (parseFloat_opt (q_lng q))
                                (parseFloat (case q_radius q of None \<Rightarrow> ''100'' | Some v \<Rightarrow> v))
                                (order_timestamp_desc (table s)),
                    nb_userLocation = (parseFloat_opt (q_lat q), parseFloat_opt (q_lng q)),
                    nb_radius = parseFloat (case q_radius q of None \<Rightarrow> ''100'' | Some v \<Rightarrow> v) \<rparr>)
   \<and> mset (order_timestamp_desc (table s)) = mset (table s)"
proof -
  have incl: "with_distance calc la lo eq \<in> set (nearbyEarthquakes calc la lo r rows)"
    if "eq \<in> set rows" "round1 (calc la lo (latitude eq) (longitude eq)) = r" "r \<noteq> NaN"
  proof -
    have "js_le r r" using that(3) by (cases r) simp_all
    then show ?thesis using that by (simp add: nearby_member)
  qed
  have excl: "with_distance calc la lo eq \<notin> set (nearbyEarthquakes calc la lo r rows)"
    if "js_lt r (round1 (calc la lo (latitude eq) (longitude eq)))"
  proof -
    have "\<not> js_le (round1 (calc la lo (latitude eq) (longitude eq))) r"
      using that by (cases r; cases "round1 (calc la lo (latitude eq) (longitude eq))") simp_all
    then show ?thesis by (simp add: nearby_member)
  qed
  have g5: "eq \<in> set rows \<and> round1 (calc la lo (latitude eq) (longitude eq)) = r \<and> r \<noteq> NaN
        \<longrightarrow> with_distance calc la lo eq \<in> set (nearbyEarthquakes calc la lo r rows)"
    using incl by blast
  have g6: "js_lt r (round1 (calc la lo (latitude eq) (longitude eq)))
        \<longrightarrow> with_distance calc la lo eq \<notin> set (nearbyEarthquakes calc la lo r rows)"
    using excl by blast
  have g7: "configured s \<and> truthy (q_lat q) \<and> truthy (q_lng q) \<longrightarrow>
        get_nearby calc s None q =
          Success \<lparr> nb_data = nearbyEarthquakes calc (parseFloat_opt (q_lat q)) (parseFloat_opt (q_lng q))
                                (parseFloat (case q_radius q of None \<Rightarrow> ''100'' | Some v \<Rightarrow> v))
                                (order_timestamp_desc (table s)),
                    nb_userLocation = (parseFloat_opt (q_lat q), parseFloat_opt (q_lng q)),
                    nb_radius = parseFloat (case q_radius q of None \<Rightarrow> ''100'' | Some v \<Rightarrow> v) \<rparr>"
    using get_nearby_success [of s q calc] by simp
  show ?thesis
    by (intro conjI)
       (rule mset_nearbyEarthquakes truncate_with_distance distance_with_distance
             sorted_nearbyEarthquakes g5 g6 g7 mset_order_timestamp_desc)+
qed

text \<open>The stand-in distance at the three rows of the sample table, and the answer for them.\<close>

lemma sample_raw_distance:
  "degree_distance (Num 0) (Num 0) (latitude (place_row ''a'' 0.9 0)) (longitude (place_row ''a'' 0.9 0))
     = Num (3518718683859911 / 35184372088832)"
  by (simp add: degree_distance_def place_row_def sample_row_def double_defs)

lemma sample_distances:
  "round1 (degree_distance (Num 0) (Num 0) (latitude (place_row ''a'' 0.9 0))
             (longitude (place_row ''a'' 0.9 0))) = Num 100"
  "round1 (degree_distance (Num 0) (Num 0) (latitude (place_row ''b'' 0.5 0))
             (longitude (place_row ''b'' 0.5 0))) = Num 55.6"
  "round1 (degree_distance (Num 0) (Num 0) (latitude (place_row ''c'' 2 0))
             (longitude (place_row ''c'' 2 0))) = Num 222.2"
  by (simp_all add: round1_def degree_distance_def place_row_def sample_row_def double_defs)

lemma nearby_three:
  assumes "distance (with_distance calc la lo ra) = Num 100"
    and "distance (with_distance calc la lo rb) = Num 55.6"
    and "distance (with_distance calc la lo rc) = Num 222.2"
  shows "nearbyEarthquakes calc la lo (Num 100) [ra, rb, rc]
           = [with_distance calc la lo rb, with_distance calc la lo ra]"
  using assms by (simp add: nearbyEarthquakes_def js_sort_def)

lemma nearby_server_answer:
  "get_nearby degree_distance nearby_server None origin_query
       = Success \<lparr> nb_data = [with_distance degree_distance (Num 0) (Num 0) (place_row ''b'' 0.5 0),
                              with_distance degree_distance (Num 0) (Num 0) (place_row ''a'' 0.9 0)],
                   nb_userLocation = (Num 0, Num 0), nb_radius = Num 100 \<rparr>"
proof -
  have rows: "order_timestamp_desc (table nearby_server)
                = [place_row ''a'' 0.9 0, place_row ''b'' 0.5 0, place_row ''c'' 2 0]"
    by (simp add: order_timestamp_desc_def nearby_server_def place_row_def sample_row_def desc_key_def)
  have q: "configured nearby_server" "truthy (q_lat origin_query)" "truthy (q_lng origin_query)"
    by (simp_all add: nearby_server_def origin_query_def truthy_def)
  have p: "parseFloat_opt (q_lat origin_query) = Num 0" "parseFloat_opt (q_lng origin_query) = Num 0"
    "parseFloat (case q_radius origin_query of None \<Rightarrow> ''100'' | Some v \<Rightarrow> v) = Num 100"
    by (simp_all add: origin_query_def parseFloat_opt_def parseFloat_def splitSign_def isWhiteSpace_def
          isDigit_def digitsValue_def digitValue_def exponentPart_def)
  have n: "nearbyEarthquakes degree_distance (Num 0) (Num 0) (Num 100)
             [place_row ''a'' 0.9 0, place_row ''b'' 0.5 0, place_row ''c'' 2 0]
           = [with_distance degree_distance (Num 0) (Num 0) (place_row ''b'' 0.5 0),
              with_distance degree_distance (Num 0) (Num 0) (place_row ''a'' 0.9 0)]"
    by (rule nearby_three) (simp_all only: distance_with_distance sample_distances)
  show ?thesis
    unfolding get_nearby_success [OF q] p rows n ..
qed

theorem nearby_by_rounded_distance_witness:
  "place_row ''a'' 0.9 0 \<in> set (table nearby_server)
   \<and> round1 (degree_distance (Num 0) (Num 0) (latitude (place_row ''a'' 0.9 0))
                (longitude (place_row ''a'' 0.9 0))) = Num 100
   \<and> Num 100 \<noteq> NaN
   \<and> js_lt (Num 100) (round1 (degree_distance (Num 0) (Num 0) (latitude (place_row ''c'' 2 0))
                                  (longitude (place_row ''c'' 2 0))))
   \<and> configured nearby_server \<and> truthy (q_lat origin_query) \<and> truthy (q_lng origin_query)
   \<and> with_distance degree_distance (Num 0) (Num 0) (place_row ''a'' 0.9 0)
       \<in> set (nearbyEarthquakes degree_distance (Num 0) (Num 0) (Num 100) (table nearby_server))
   \<and> with_distance degree_distance (Num 0) (Num 0) (place_row ''c'' 2 0)
       \<notin> set (nearbyEarthquakes degree_distance (Num 0) (Num 0) (Num 100) (table nearby_server))
   \<and> get_nearby degree_distance nearby_server None origin_query
       = Success \<lparr> nb_data = [with_distance degree_distance (Num 0) (Num 0) (place_row ''b'' 0.5 0),
                              with_distance degree_distance (Num 0) (Num 0) (place_row ''a'' 0.9 0)],
                   nb_userLocation = (Num 0, Num 0), nb_radius = Num 100 \<rparr>"
proof -
  have a: "place_row ''a'' 0.9 0 \<in> set (table nearby_server)"
    by (simp add: nearby_server_def)
  have ra: "round1 (degree_distance (Num 0) (Num 0) (latitude (place_row ''a'' 0.9 0))
                (longitude (place_row ''a'' 0.9 0))) = Num 100"
    by (rule sample_distances)
  have rc: "js_lt (Num 100) (round1 (degree_distance (Num 0) (Num 0) (latitude (place_row ''c'' 2 0))
                                  (longitude (place_row ''c'' 2 0))))"
    unfolding sample_distances by simp
  have q: "configured nearby_server" "truthy (q_lat origin_query)" "truthy (q_lng origin_query)"
    by (simp_all add: nearby_server_def origin_query_def truthy_def)
  have n: "Num 100 \<noteq> NaN"
    by simp
  have ina: "with_distance degree_distance (Num 0) (Num 0) (place_row ''a'' 0.9 0)
       \<in> set (nearbyEarthquakes degree_distance (Num 0) (Num 0) (Num 100) (table nearby_server))"
    using nearby_by_rounded_distance
            [of degree_distance "Num 0" "Num 0" "Num 100" "table nearby_server"
                "place_row ''a'' 0.9 0" nearby_server origin_query]
          a ra n
    by blast
  have outc: "with_distance degree_distance (Num 0) (Num 0) (place_row ''c'' 2 0)
       \<notin> set (nearbyEarthquakes degree_distance (Num 0) (Num 0) (Num 100) (table nearby_server))"
    using nearby_by_rounded_distance
            [of degree_distance "Num 0" "Num 0" "Num 100" "table nearby_server"
                "place_row ''c'' 2 0" nearby_server origin_query]
          rc
    by blast
  have g: "get_nearby degree_distance nearby_server None origin_query
       = Success \<lparr> nb_data = [with_distance degree_distance (Num 0) (Num 0) (place_row ''b'' 0.5 0),
                              with_distance degree_distance (Num 0) (Num 0) (place_row ''a'' 0.9 0)],
                   nb_userLocation = (Num 0, Num 0), nb_radius = Num 100 \<rparr>"
    by (rule nearby_server_answer)
  show ?thesis
    by (intro conjI) (rule a ra n rc q ina outc g)+
qed

text \<open>
  A row whose computed distance is 100.008 km is in the answer for the radius 100: its
  distance is above the radius, and it is not excluded.
\<close>

theorem nearby_raw_distance_counterexample:
  "js_lt (Num 100)
     (degree_distance (Num 0) (Num 0) (latitude (place_row ''a'' 0.9 0))
        (longitude (place_row ''a'' 0.9 0)))
   \<and> get_nearby degree_distance nearby_server None origin_query
       = Success \<lparr> nb_data = [with_distance degree_distance (Num 0) (Num 0) (place_row ''b'' 0.5 0),
                              with_distance degree_distance (Num 0) (Num 0) (place_row ''a'' 0.9 0)],
                   nb_userLocation = (Num 0, Num 0), nb_radius = Num 100 \<rparr>"
proof -
  have d: "js_lt (Num 100)
     (degree_distance (Num 0) (Num 0) (latitude (place_row ''a'' 0.9 0))
        (longitude (place_row ''a'' 0.9 0)))"
    unfolding sample_raw_distance by simp
  have g: "get_nearby degree_distance nearby_server None origin_query
       = Success \<lparr> nb_data = [with_distance degree_distance (Num 0) (Num 0) (place_row ''b'' 0.5 0),
                              with_distance degree_distance (Num 0) (Num 0) (place_row ''a'' 0.9 0)],
                   nb_userLocation = (Num 0, Num 0), nb_radius = Num 100 \<rparr>"
    by (rule nearby_server_answer)
  show ?thesis
    using d g by (rule conjI)
qed

text \<open>
  C9. The filter of the nearby endpoint compares the rounded distance with the radius,
  not the computed one: every record of the answer carries the rounded distance of its
  row, and that is at most the radius; a row is in the answer as soon as its rounded
  distance is at most the radius. There is a row whose computed distance is above the
  radius 100, by less than 0.05, and which is in the answer all the same.
\<close>

theorem nearby_filter_on_rounded:
  "(\<forall>e \<in> set (nearbyEarthquakes calc la lo r rows).
       js_le (distance e) r
       \<and> distance e = round1 (calc la lo (latitude e) (longitude e)))
   \<and> (eq \<in> set rows \<and> js_le (round1 (calc la lo (latitude eq) (longitude eq))) r
        \<longrightarrow> with_distance calc la lo eq \<in> set (nearbyEarthquakes calc la lo r rows))
   \<and> (\<exists>dist s q row d.
         configured s \<and> row \<in> set (table s)
         \<and> dist (parseFloat_opt (q_lat q)) (parseFloat_opt (q_lng q)) (latitude row) (longitude row)
             = Num d
         \<and> 100 < d \<and> d < 100 + 1 / 20
         \<and> \<not> js_le (Num d) (Num 100)
         \<and> get_nearby dist s None q
             = Success \<lparr> nb_data = nearbyEarthquakes dist (parseFloat_opt (q_lat q))
                                      (parseFloat_opt (q_lng q)) (Num 100)
                                      (order_timestamp_desc (table s)),
                         nb_userLocation = (parseFloat_opt (q_lat q), parseFloat_opt (q_lng q)),
                         nb_radius = Num 100 \<rparr>
         \<and> with_distance dist (parseFloat_opt (q_lat q)) (parseFloat_opt (q_lng q)) row
             \<in> set (nearbyEarthquakes dist (parseFloat_opt (q_lat q)) (parseFloat_opt (q_lng q))
                      (Num 100) (order_timestamp_desc (table s))))"
proof -
  have all: "js_le (distance e) r \<and> distance e = round1 (calc la lo (latitude e) (longitude e))"
    if "e \<in> set (nearbyEarthquakes calc la lo r rows)" for e
  proof -
    from that obtain eq' where e: "e = with_distance calc la lo eq'"
      and m: "js_le (round1 (calc la lo (latitude eq') (longitude eq'))) r"
      unfolding set_nearbyEarthquakes by blast
    show ?thesis
      using m unfolding e distance_with_distance latlon_with_distance by simp
  qed
  have member: "with_distance calc la lo eq \<in> set (nearbyEarthquakes calc la lo r rows)"
    if "eq \<in> set rows" "js_le (round1 (calc la lo (latitude eq) (longitude eq))) r"
    using that by (simp only: nearby_member)
  have p: "parseFloat_opt (q_lat origin_query) = Num 0" "parseFloat_opt (q_lng origin_query) = Num 0"
    "parseFloat (case q_radius origin_query of None \<Rightarrow> ''100'' | Some v \<Rightarrow> v) = Num 100"
    by (simp_all add: origin_query_def parseFloat_opt_def parseFloat_def splitSign_def isWhiteSpace_def
          isDigit_def digitsValue_def digitValue_def exponentPart_def)
  have q: "configured nearby_server" "truthy (q_lat origin_query)" "truthy (q_lng origin_query)"
    by (simp_all add: nearby_server_def origin_query_def truthy_def)
  have row: "place_row ''a'' 0.9 0 \<in> set (table nearby_server)"
    by (simp add: nearby_server_def)
  then have row': "place_row ''a'' 0.9 0 \<in> set (order_timestamp_desc (table nearby_server))"
    by (simp only: set_order_timestamp_desc)
  have d: "degree_distance (parseFloat_opt (q_lat origin_query)) (parseFloat_opt (q_lng origin_query))
             (latitude (place_row ''a'' 0.9 0)) (longitude (place_row ''a'' 0.9 0))
           = Num (3518718683859911 / 35184372088832)"
    unfolding p by (rule sample_raw_distance)
  have bounds: "(100 :: real) < 3518718683859911 / 35184372088832"
    "(3518718683859911 / 35184372088832 :: real) < 100 + 1 / 20"
    "\<not> js_le (Num (3518718683859911 / 35184372088832)) (Num 100)"
    by simp_all
  have g: "get_nearby degree_distance nearby_server None origin_query
             = Success \<lparr> nb_data = nearbyEarthquakes degree_distance (parseFloat_opt (q_lat origin_query))
                                      (parseFloat_opt (q_lng origin_query)) (Num 100)
                                      (order_timestamp_desc (table nearby_server)),
                         nb_userLocation = (parseFloat_opt (q_lat origin_query),
                                            parseFloat_opt (q_lng origin_query)),
                         nb_radius = Num 100 \<rparr>"
    unfolding get_nearby_success [OF q] p ..
  have "js_le (round1 (degree_distance (Num 0) (Num 0) (latitude (place_row ''a'' 0.9 0))
                         (longitude (place_row ''a'' 0.9 0)))) (Num 100)"
    unfolding sample_distances by simp
  then have inside: "with_distance degree_distance (parseFloat_opt (q_lat origin_query))
                 (parseFloat_opt (q_lng origin_query)) (place_row ''a'' 0.9 0)
             \<in> set (nearbyEarthquakes degree_distance (parseFloat_opt (q_lat origin_query))
                      (parseFloat_opt (q_lng origin_query)) (Num 100)
                      (order_timestamp_desc (table nearby_server)))"
    unfolding p using row' by (simp only: nearby_member)
  have some: "\<exists>dist s q row d.
         configured s \<and> row \<in> set (table s)
         \<and> dist (parseFloat_opt (q_lat q)) (parseFloat_opt (q_lng q)) (latitude row) (longitude row)
             = Num d
         \<and> 100 < d \<and> d < 100 + 1 / 20
         \<and> \<not> js_le (Num d) (Num 100)
         \<and> get_nearby dist s None q
             = Success \<lparr> nb_data = nearbyEarthquakes dist (parseFloat_opt (q_lat q))
                                      (parseFloat_opt (q_lng q)) (Num 100)
                                      (order_timestamp_desc (table s)),
                         nb_userLocation = (parseFloat_opt (q_lat q), parseFloat_opt (q_lng q)),
                         nb_radius = Num 100 \<rparr>
         \<and> with_distance dist (parseFloat_opt (q_lat q)) (parseFloat_opt (q_lng q)) row
             \<in> set (nearbyEarthquakes dist (parseFloat_opt (q_lat q)) (parseFloat_opt (q_lng q))
                      (Num 100) (order_timestamp_desc (table s)))"
    using q(1) row d bounds g inside by blast
  show ?thesis
    using all member some by blast
qed

theorem nearby_filter_on_rounded_witness:
  "place_row ''a'' 0.9 0 \<in> set (table nearby_server)
   \<and> js_le (round1 (degree_distance (Num 0) (Num 0) (latitude (place_row ''a'' 0.9 0))
                       (longitude (place_row ''a'' 0.9 0)))) (Num 100)
   \<and> \<not> js_le (degree_distance (Num 0) (Num 0) (latitude (place_row ''a'' 0.9 0))
                 (longitude (place_row ''a'' 0.9 0))) (Num 100)
   \<and> with_distance degree_distance (Num 0) (Num 0) (place_row ''a'' 0.9 0)
       \<in> set (nearbyEarthquakes degree_distance (Num 0) (Num 0) (Num 100) (table nearby_server))
   \<and> js_le (distance (with_distance degree_distance (Num 0) (Num 0) (place_row ''a'' 0.9 0)))
         (Num 100)"
proof -
  have a: "place_row ''a'' 0.9 0 \<in> set (table nearby_server)"
    by (simp add: nearby_server_def)
  have r: "js_le (round1 (degree_distance (Num 0) (Num 0) (latitude (place_row ''a'' 0.9 0))
                       (longitude (place_row ''a'' 0.9 0)))) (Num 100)"
    unfolding sample_distances by simp
  have d: "\<not> js_le (degree_distance (Num 0) (Num 0) (latitude (place_row ''a'' 0.9 0))
                 (longitude (place_row ''a'' 0.9 0))) (Num 100)"
    unfolding sample_raw_distance by simp
  note t = nearby_filter_on_rounded
             [of degree_distance "Num 0" "Num 0" "Num 100" "table nearby_server"
                 "place_row ''a'' 0.9 0"]
  have m: "with_distance degree_distance (Num 0) (Num 0) (place_row ''a'' 0.9 0)
       \<in> set (nearbyEarthquakes degree_distance (Num 0) (Num 0) (Num 100) (table nearby_server))"
    using t a r by blast
  have b: "js_le (distance (with_distance degree_distance (Num 0) (Num 0) (place_row ''a'' 0.9 0)))
         (Num 100)"
    using t m by blast
  show ?thesis
    by (intro conjI) (rule a r d m b)+
qed

section \<open>The list endpoint\<close>

lemma parseInt_2: "parseInt ''2'' = Num 2" "parseInt ''0'' = Num 0" "parseInt ''50'' = Num 50"
  by (simp_all add: parseInt_def parseInt_digits_def splitSign_def isWhiteSpace_def isDigit_def
        digitsValue_def digitValue_def)

lemma desc_key_inj: "desc_key a = desc_key b \<Longrightarrow> a = b"
  by (cases a; cases b) (simp_all add: desc_key_def)

lemma desc_key_less:
  "a \<noteq> NaN \<Longrightarrow> b \<noteq> NaN \<Longrightarrow> desc_key a < desc_key b \<Longrightarrow> js_lt b a"
  by (cases a; cases b) (simp_all add: desc_key_def)

lemma length_order_timestamp_desc: "length (order_timestamp_desc rows) = length rows"
  by (simp add: order_timestamp_desc_def)

lemma distinct_order_timestamp_desc:
  "distinct (map timestamp rows) \<Longrightarrow> distinct (map timestamp (order_timestamp_desc rows))"
proof -
  assume d: "distinct (map timestamp rows)"
  have "mset (map timestamp (order_timestamp_desc rows)) = mset (map timestamp rows)"
    by (simp add: mset_order_timestamp_desc)
  then show ?thesis
    using d by (metis mset_eq_imp_distinct_iff)
qed

lemma descending_order_timestamp_desc:
  assumes d: "distinct (map timestamp rows)" and n: "\<forall>e \<in> set rows. timestamp e \<noteq> NaN"
  shows "sorted_wrt (\<lambda>a b. js_lt (timestamp b) (timestamp a)) (order_timestamp_desc rows)"
proof -
  let ?xs = "order_timestamp_desc rows"
  have s: "sorted (map (\<lambda>e. desc_key (timestamp e)) ?xs)"
    by (simp add: order_timestamp_desc_def)
  have "distinct (map timestamp ?xs)"
    using d by (rule distinct_order_timestamp_desc)
  then have "distinct (map desc_key (map timestamp ?xs))"
    by (simp add: distinct_map inj_on_def desc_key_inj)
  then have "distinct (map (\<lambda>e. desc_key (timestamp e)) ?xs)"
    by (simp add: comp_def)
  with s have "sorted_wrt (<) (map (\<lambda>e. desc_key (timestamp e)) ?xs)"
    by (simp add: strict_sorted_iff)
  then have st: "sorted_wrt (\<lambda>a b. desc_key (timestamp a) < desc_key (timestamp b)) ?xs"
    by (simp add: sorted_wrt_map)
  show ?thesis
  proof (rule sorted_wrt_mono_rel [OF _ st])
    fix a b
    assume "a \<in> set ?xs" "b \<in> set ?xs" "desc_key (timestamp a) < desc_key (timestamp b)"
    then show "js_lt (timestamp b) (timestamp a)"
      using n by (auto simp: set_order_timestamp_desc intro: desc_key_less)
  qed
qed


lemma get_earthquakes_page:
  assumes "configured s" "parseInt off = Num (real m)"
  shows "get_earthquakes s None (page_query ''2'' off)
           = Success (take 2 (drop m (order_timestamp_desc (table s))),
                      \<lparr> pg_total = length (table s), pg_limit = Num 2, pg_offset = Num (real m) \<rparr>)"
  using assms
  by (simp add: get_earthquakes_def page_query_def isSupabaseAvailable_def truthy_def Let_def
        parseInt_2 select_range_def)

text \<open>
  C7. Over a table of four rows with four different timestamps, the list endpoint asked
  for limit 2 at offset 0 and then for limit 2 at offset 2 answers with two pages of two
  rows each. The two pages one after the other are the table by strictly falling
  timestamp: no row is in both pages and every row of the table is in one of them. The
  total of the pagination is 4 in both answers, with the limit 2 and the offset asked
  for. A request without limit and offset is answered as one with limit 50 and offset 0.
\<close>

theorem list_pagination:
  "(configured s \<and> length (table s) = 4 \<and> distinct (map timestamp (table s))
      \<and> (\<forall>e \<in> set (table s). timestamp e \<noteq> NaN) \<longrightarrow>
     (\<exists>p1 p2.
        get_earthquakes s None (page_query ''2'' ''0'')
          = Success (p1, \<lparr> pg_total = 4, pg_limit = Num 2, pg_offset = Num 0 \<rparr>)
        \<and> get_earthquakes s None (page_query ''2'' ''2'')
          = Success (p2, \<lparr> pg_total = 4, pg_limit = Num 2, pg_offset = Num 2 \<rparr>)
        \<and> length p1 = 2 \<and> length p2 = 2
        \<and> p1 @ p2 = order_timestamp_desc (table s)
        \<and> sorted_wrt (\<lambda>a b. js_lt (timestamp b) (timestamp a)) (p1 @ p2)
        \<and> set p1 \<inter> set p2 = {}
        \<and> mset (p1 @ p2) = mset (table s)))
   \<and> get_earthquakes s err
         \<lparr> q_limit = None, q_offset = None, q_minMagnitude = mn, q_maxMagnitude = mx \<rparr>
       = get_earthquakes s err
         \<lparr> q_limit = Some ''50'', q_offset = Some ''0'', q_minMagnitude = mn, q_maxMagnitude = mx \<rparr>"
proof (intro conjI impI)
  assume h: "configured s \<and> length (table s) = 4 \<and> distinct (map timestamp (table s))
      \<and> (\<forall>e \<in> set (table s). timestamp e \<noteq> NaN)"
  let ?xs = "order_timestamp_desc (table s)"
  let ?p1 = "take 2 ?xs" and ?p2 = "take 2 (drop 2 ?xs)"
  have len: "length ?xs = 4"
    using h by (simp add: length_order_timestamp_desc)
  have g1: "get_earthquakes s None (page_query ''2'' ''0'')
          = Success (?p1, \<lparr> pg_total = 4, pg_limit = Num 2, pg_offset = Num 0 \<rparr>)"
    using get_earthquakes_page [of s "''0''" 0] h by (simp add: parseInt_2)
  have g2: "get_earthquakes s None (page_query ''2'' ''2'')
          = Success (?p2, \<lparr> pg_total = 4, pg_limit = Num 2, pg_offset = Num 2 \<rparr>)"
    using get_earthquakes_page [of s "''2''" 2] h by (simp add: parseInt_2)
  have "?p1 @ ?p2 = take (2 + 2) ?xs"
    by (simp only: take_add)
  then have app: "?p1 @ ?p2 = ?xs"
    using len by simp
  have desc: "sorted_wrt (\<lambda>a b. js_lt (timestamp b) (timestamp a)) (?p1 @ ?p2)"
    unfolding app using h by (intro descending_order_timestamp_desc) simp_all
  have "distinct (map timestamp ?xs)"
    using h by (intro distinct_order_timestamp_desc) simp
  then have "distinct ?xs"
    by (simp add: distinct_map)
  then have "distinct (?p1 @ ?p2)"
    by (simp only: app)
  then have disj: "set ?p1 \<inter> set ?p2 = {}"
    by (simp only: distinct_append)
  have all: "mset (?p1 @ ?p2) = mset (table s)"
    by (simp only: app mset_order_timestamp_desc)
  have l: "length ?p1 = 2" "length ?p2 = 2"
    using len by simp_all
  show "\<exists>p1 p2.
        get_earthquakes s None (page_query ''2'' ''0'')
          = Success (p1, \<lparr> pg_total = 4, pg_limit = Num 2, pg_offset = Num 0 \<rparr>)
        \<and> get_earthquakes s None (page_query ''2'' ''2'')
          = Success (p2, \<lparr> pg_total = 4, pg_limit = Num 2, pg_offset = Num 2 \<rparr>)
        \<and> length p1 = 2 \<and> length p2 = 2
        \<and> p1 @ p2 = order_timestamp_desc (table s)
        \<and> sorted_wrt (\<lambda>a b. js_lt (timestamp b) (timestamp a)) (p1 @ p2)
        \<and> set p1 \<inter> set p2 = {}
        \<and> mset (p1 @ p2) = mset (table s)"
    using g1 g2 l app desc disj all by blast
next
  show "get_earthquakes s err
         \<lparr> q_limit = None, q_offset = None, q_minMagnitude = mn, q_maxMagnitude = mx \<rparr>
       = get_earthquakes s err
         \<lparr> q_limit = Some ''50'', q_offset = Some ''0'', q_minMagnitude = mn, q_maxMagnitude = mx \<rparr>"
    by (simp add: get_earthquakes_def Let_def cong: sum.case_cong option.case_cong if_cong)
qed

theorem list_pagination_witness:
  "configured four_rows \<and> length (table four_rows) = 4 \<and> distinct (map timestamp (table four_rows))
   \<and> NaN \<notin> set (map timestamp (table four_rows))
   \<and> get_earthquakes four_rows None (page_query ''2'' ''0'')
       = Success ([sample_row ''b'' 40, sample_row ''d'' 30],
                  \<lparr> pg_total = 4, pg_limit = Num 2, pg_offset = Num 0 \<rparr>)
   \<and> get_earthquakes four_rows None (page_query ''2'' ''2'')
       = Success ([sample_row ''a'' 20, sample_row ''c'' 10],
                  \<lparr> pg_total = 4, pg_limit = Num 2, pg_offset = Num 2 \<rparr>)
   \<and> get_earthquakes four_rows None default_query
       = Success ([sample_row ''b'' 40, sample_row ''d'' 30, sample_row ''a'' 20, sample_row ''c'' 10],
                  \<lparr> pg_total = 4, pg_limit = Num 50, pg_offset = Num 0 \<rparr>)
   \<and> (\<exists>p1 p2.
        get_earthquakes four_rows None (page_query ''2'' ''0'')
          = Success (p1, \<lparr> pg_total = 4, pg_limit = Num 2, pg_offset = Num 0 \<rparr>)
        \<and> get_earthquakes four_rows None (page_query ''2'' ''2'')
          = Success (p2, \<lparr> pg_total = 4, pg_limit = Num 2, pg_offset = Num 2 \<rparr>)
        \<and> set p1 \<inter> set p2 = {} \<and> mset (p1 @ p2) = mset (table four_rows))"
proof -
  have g0: "get_earthquakes four_rows None default_query
       = Success ([sample_row ''b'' 40, sample_row ''d'' 30, sample_row ''a'' 20, sample_row ''c'' 10],
                  \<lparr> pg_total = 4, pg_limit = Num 50, pg_offset = Num 0 \<rparr>)"
    by code_simp
  have h: "configured four_rows" "length (table four_rows) = 4"
    "distinct (map timestamp (table four_rows))"
    "NaN \<notin> set (map timestamp (table four_rows))"
    by (simp_all add: four_rows_def sample_row_def)
  have n: "\<forall>e \<in> set (table four_rows). timestamp e \<noteq> NaN"
    using h(4) by (metis image_eqI set_map)
  have g1: "get_earthquakes four_rows None (page_query ''2'' ''0'')
       = Success ([sample_row ''b'' 40, sample_row ''d'' 30],
                  \<lparr> pg_total = 4, pg_limit = Num 2, pg_offset = Num 0 \<rparr>)"
    by code_simp
  have g2: "get_earthquakes four_rows None (page_query ''2'' ''2'')
       = Success ([sample_row ''a'' 20, sample_row ''c'' 10],
                  \<lparr> pg_total = 4, pg_limit = Num 2, pg_offset = Num 2 \<rparr>)"
    by code_simp
  have ex: "\<exists>p1 p2.
        get_earthquakes four_rows None (page_query ''2'' ''0'')
          = Success (p1, \<lparr> pg_total = 4, pg_limit = Num 2, pg_offset = Num 0 \<rparr>)
        \<and> get_earthquakes four_rows None (page_query ''2'' ''2'')
          = Success (p2, \<lparr> pg_total = 4, pg_limit = Num 2, pg_offset = Num 2 \<rparr>)
        \<and> set p1 \<inter> set p2 = {} \<and> mset (p1 @ p2) = mset (table four_rows)"
    using list_pagination [of four_rows] h(1,2,3) n by blast
  show ?thesis
    by (intro conjI) (rule h g1 g2 g0 ex)+
qed

end
